theory Spec2Isabelle
  imports Complex_Main "HOL-Library.Monad_Syntax"
begin

section \<open>Data model\<close>

text \<open>
  The decision engine of \<^verbatim>\<open>DeepfakeBench/training/demo_server.py\<close> and its streaming
  front end \<^verbatim>\<open>native_host/server.py\<close>.

  Probabilities and confidences are Python and NumPy floats in the source. Here they are
  real numbers: the rounding of arithmetic results and NaN are outside the model, while
  the single-precision comparison with the threshold, which decides a label, is
  modelled (see \<open>to_float32\<close>). Labels are the source's strings.
  The per-model dictionaries of the source become records with the source's keys as
  fields; keys that only carry presentation (\<^verbatim>\<open>details\<close>, \<^verbatim>\<open>warning\<close>, \<^verbatim>\<open>cls\<close>, timings,
  saved paths) are left out.
\<close>

record scored =
  prob :: real
  confidence :: real

text \<open>An entry of \<^verbatim>\<open>fake_predictions\<close> or \<^verbatim>\<open>real_predictions\<close>.\<close>

record vote = scored +
  model :: string

record labelled = scored +
  prediction :: string

text \<open>The three keys that only single-model mode writes into a model's entry.\<close>

record conversion_info =
  original_prediction :: string
  original_confidence :: real
  was_converted :: bool

text \<open>
  A model's entry of \<^verbatim>\<open>results\<close>: \<open>single_info\<close> is \<open>None\<close> where the source's
  dictionary has no \<^verbatim>\<open>was_converted\<close> key (ensemble mode).
\<close>

record model_result = labelled +
  single_info :: "conversion_info option"

text \<open>The dictionary a voting rule builds, before the suspicious flag is added.\<close>

record verdict = labelled +
  rule :: string

record ensemble_result = verdict +
  suspicious :: bool

text \<open>
  The server object. A model is the function from an aligned face to the fake
  probability that \<^verbatim>\<open>preprocess_face\<close> followed by \<^verbatim>\<open>inference\<close> computes;
  \<open>models\<close> is the dictionary \<^verbatim>\<open>self.models\<close> in insertion order. \<open>face_detector\<close> and
  \<open>landmark_predictor\<close> say whether the attribute is set; \<open>detect_and_align\<close> is what
  dlib and OpenCV compute inside \<^verbatim>\<open>extract_aligned_face\<close> once a detector is present.
\<close>

record 'img server =
  FAKE_CONFIDENCE_THRESHOLD :: real
  REAL_CONFIDENCE_BOOST :: real
  models :: "(string \<times> ('img \<Rightarrow> real)) list"
  face_detector :: bool
  landmark_predictor :: bool
  detect_and_align :: "'img \<Rightarrow> 'img option"

section \<open>Frame decision engine\<close>

subsection \<open>Threshold and boost\<close>

text \<open>
  \<^verbatim>\<open>_apply_confidence_threshold\<close>, returning (final prediction, final confidence, was
  converted). The two parameters that share their names with dictionary keys are primed.
\<close>

definition apply_confidence_threshold ::
  "('img, 'z) server_scheme \<Rightarrow> real \<Rightarrow> string \<Rightarrow> real \<Rightarrow> string \<times> real \<times> bool" where
  "apply_confidence_threshold self p original_prediction' original_confidence' =
     (if original_prediction' = ''FAKE'' \<and> original_confidence' < FAKE_CONFIDENCE_THRESHOLD self
      then
        (let base_confidence = original_confidence';
             boosted_confidence = min (base_confidence + REAL_CONFIDENCE_BOOST self) 1.0
         in (''REAL'', boosted_confidence, True))
      else if original_prediction' = ''REAL''
      then
        (let boosted_confidence = min (original_confidence' + REAL_CONFIDENCE_BOOST self) 1.0
         in (''REAL'', boosted_confidence, False))
      else (original_prediction', original_confidence', False))"

text \<open>
  The raw label and confidence of a probability, as every inference loop computes them
  (\<open>0.5\<close> is a float32, so the comparison is exact).
\<close>

definition pred_label :: "real \<Rightarrow> string" where
  "pred_label p = (if p \<ge> 0.5 then ''FAKE'' else ''REAL'')"

definition raw_confidence :: "real \<Rightarrow> real" where
  "raw_confidence p = (if p \<ge> 0.5 then p else 1 - p)"

subsection \<open>Single precision\<close>

text \<open>
  The probability a model returns is a NumPy float32. \<^verbatim>\<open>process_image\<close> and
  \<^verbatim>\<open>process_video\<close> hand the float32 confidence to \<^verbatim>\<open>_apply_confidence_threshold\<close>, and
  in \<^verbatim>\<open>original_confidence < self.FAKE_CONFIDENCE_THRESHOLD\<close> NumPy (promotion rules of
  version 2: a Python float operand takes the type of the float32 operand) converts the
  threshold to float32 before it compares. \<^verbatim>\<open>infer_using_server\<close> calls \<^verbatim>\<open>float(prob)\<close>
  first, so there both operands are Python floats and the comparison is exact.

  \<open>to_float32\<close> is the float32 nearest to a real number, ties to the even significand,
  for magnitudes below \<open>2 ^ 128\<close>: the spacing of the float32 values around \<open>x\<close> is found
  by walking down the binades below 1 (the last one holds the subnormal numbers) or up
  the binades from 1, and \<open>x\<close> is rounded to a multiple of it. Of single precision the
  model has this conversion of the threshold; values stay real numbers and the results
  of additions and subtractions are taken as exact.
\<close>

definition round_half_even :: "real \<Rightarrow> int" where
  "round_half_even x =
     (let f = \<lfloor>x\<rfloor>; r = x - of_int f in
      if r < 1 / 2 then f else if r > 1 / 2 then f + 1 else if even f then f else f + 1)"

fun spacing_below_one :: "nat \<Rightarrow> real \<Rightarrow> real \<Rightarrow> real \<Rightarrow> real" where
  "spacing_below_one 0 lo q x = q"
| "spacing_below_one (Suc n) lo q x =
     (if lo \<le> x then q else spacing_below_one n (lo / 2) (q / 2) x)"

fun spacing_from_one :: "nat \<Rightarrow> real \<Rightarrow> real \<Rightarrow> real \<Rightarrow> real" where
  "spacing_from_one 0 hi q x = q"
| "spacing_from_one (Suc n) hi q x =
     (if x < hi then q else spacing_from_one n (hi * 2) (q * 2) x)"

definition float32_spacing :: "real \<Rightarrow> real" where
  "float32_spacing x =
     (if \<bar>x\<bar> < 1 then spacing_below_one 125 (1 / 2) (1 / 2 ^ 24) \<bar>x\<bar>
      else spacing_from_one 127 2 (1 / 2 ^ 23) \<bar>x\<bar>)"

definition to_float32 :: "real \<Rightarrow> real" where
  "to_float32 x = of_int (round_half_even (x / float32_spacing x)) * float32_spacing x"

text \<open>
  The type of the confidence that reaches \<^verbatim>\<open>_apply_confidence_threshold\<close>, and the
  threshold that the comparison then uses.
\<close>

datatype dtype = Float32 | Float64

fun compared_threshold :: "dtype \<Rightarrow> real \<Rightarrow> real" where
  "compared_threshold Float32 T = to_float32 T"
| "compared_threshold Float64 T = T"

subsection \<open>The entry of one model\<close>

text \<open>
  The body of the loop over \<^verbatim>\<open>self.models.items()\<close> in \<^verbatim>\<open>process_image\<close>,
  \<^verbatim>\<open>process_video\<close> (confidence of type \<open>Float32\<close>) and \<^verbatim>\<open>infer_using_server\<close>
  (confidence of type \<open>Float64\<close>): the entry written for one model whose probability
  is \<open>p\<close>. The call of \<^verbatim>\<open>_apply_confidence_threshold\<close> on a float32 confidence is the
  function on the threshold converted to float32.
\<close>

definition model_entry ::
  "('img, 'z) server_scheme \<Rightarrow> dtype \<Rightarrow> bool \<Rightarrow> real \<Rightarrow> model_result" where
  "model_entry self dt is_single_model p =
     (if is_single_model
      then
        (case apply_confidence_threshold
                (self\<lparr>FAKE_CONFIDENCE_THRESHOLD :=
                        compared_threshold dt (FAKE_CONFIDENCE_THRESHOLD self)\<rparr>)
                p (pred_label p) (raw_confidence p) of
           (final_pred, final_conf, converted) \<Rightarrow>
             \<lparr>prob = p, confidence = final_conf, prediction = final_pred,
              single_info = Some \<lparr>original_prediction = pred_label p,
                                  original_confidence = raw_confidence p,
                                  was_converted = converted\<rparr>\<rparr>)
      else \<lparr>prob = p, confidence = raw_confidence p, prediction = pred_label p,
            single_info = None\<rparr>)"

subsection \<open>Ensemble voting\<close>

text \<open>\<^verbatim>\<open>_add_suspicious_flag\<close>.\<close>

definition add_suspicious_flag :: "verdict \<Rightarrow> ensemble_result" where
  "add_suspicious_flag result =
     (let c = confidence result in
      \<lparr>prob = prob result, confidence = c, prediction = prediction result, rule = rule result,
       suspicious = (0.50 \<le> c \<and> c \<le> 0.65)\<rparr>)"

text \<open>
  Python's \<^verbatim>\<open>max(xs, key=lambda x: x['confidence'])\<close>: the first element of greatest
  confidence; \<open>None\<close> is the ValueError on an empty list.
\<close>

fun max_by_confidence :: "'a scored_scheme list \<Rightarrow> 'a scored_scheme option" where
  "max_by_confidence [] = None"
| "max_by_confidence (x # xs) =
     Some (foldl (\<lambda>best y. if confidence best < confidence y then y else best) x xs)"

text \<open>
  \<^verbatim>\<open>np.mean\<close> of a list. \<open>list_mean\<close> is its value on a non-empty list. On the empty
  list NumPy returns NaN, which no real number stands for: \<open>None\<close>.
\<close>

definition list_mean :: "real list \<Rightarrow> real" where
  "list_mean xs = sum_list xs / real (length xs)"

definition np_mean :: "real list \<Rightarrow> real option" where
  "np_mean xs = (if xs = [] then None else Some (list_mean xs))"

definition as_vote :: "string \<times> 'a labelled_scheme \<Rightarrow> vote" where
  "as_vote e = \<lparr>prob = prob (snd e), confidence = confidence (snd e), model = fst e\<rparr>"

definition fake_predictions :: "(string \<times> 'a labelled_scheme) list \<Rightarrow> vote list" where
  "fake_predictions results = map as_vote (filter (\<lambda>e. prediction (snd e) = ''FAKE'') results)"

definition real_predictions :: "(string \<times> 'a labelled_scheme) list \<Rightarrow> vote list" where
  "real_predictions results = map as_vote (filter (\<lambda>e. prediction (snd e) \<noteq> ''FAKE'') results)"

text \<open>
  \<^verbatim>\<open>_calculate_ensemble_verdict\<close> on the dictionary \<open>results\<close> (model name to entry, in
  insertion order). The result is \<open>None\<close> only where the source leaves the model: the NaN
  mean of an empty dictionary.
\<close>

definition calculate_ensemble_verdict ::
  "(string \<times> 'a labelled_scheme) list \<Rightarrow> ensemble_result option" where
  "calculate_ensemble_verdict results =
     (let num_fake = length (fake_predictions results);
          num_real = length (real_predictions results)
      in
      if num_fake = 3 \<and> num_real = 0 then
        do {
          best_fake \<leftarrow> max_by_confidence (fake_predictions results);
          Some (add_suspicious_flag
            \<lparr>prob = prob best_fake, confidence = confidence best_fake, prediction = ''FAKE'',
             rule = ''Rule 1: All models predict FAKE''\<rparr>)
        }
      else if num_fake = 0 \<and> num_real = 3 then
        do {
          best_real \<leftarrow> max_by_confidence (real_predictions results);
          Some (add_suspicious_flag
            \<lparr>prob = prob best_real, confidence = confidence best_real, prediction = ''REAL'',
             rule = ''Rule 2: All models predict REAL''\<rparr>)
        }
      else if num_fake = 1 \<and> num_real = 2 then
        do {
          fake_model \<leftarrow> (case fake_predictions results of [] \<Rightarrow> None | v # _ \<Rightarrow> Some v);
          best_real \<leftarrow> max_by_confidence (real_predictions results);
          Some (add_suspicious_flag
            (if confidence fake_model > 0.85 then
               (if confidence best_real > 0.85 then
                  \<lparr>prob = prob best_real, confidence = confidence best_real,
                   prediction = ''REAL'',
                   rule = ''Rule 3: Counter-Override - Both sides >85%, majority wins (REAL)''\<rparr>
                else
                  \<lparr>prob = prob fake_model, confidence = confidence fake_model,
                   prediction = ''FAKE'',
                   rule = ''Rule 3: Override - FAKE model has >85% confidence''\<rparr>)
             else
               \<lparr>prob = prob best_real, confidence = confidence best_real,
                prediction = ''REAL'',
                rule = ''Rule 3: Majority vote REAL (2 vs 1)''\<rparr>))
        }
      else if num_fake = 2 \<and> num_real = 1 then
        do {
          real_model \<leftarrow> (case real_predictions results of [] \<Rightarrow> None | v # _ \<Rightarrow> Some v);
          best_fake \<leftarrow> max_by_confidence (fake_predictions results);
          Some (add_suspicious_flag
            (if confidence real_model > 0.85 then
               (if confidence best_fake > 0.85 then
                  \<lparr>prob = prob best_fake, confidence = confidence best_fake,
                   prediction = ''FAKE'',
                   rule = ''Rule 4: Counter-Override - Both sides >85%, majority wins (FAKE)''\<rparr>
                else
                  \<lparr>prob = prob real_model, confidence = confidence real_model,
                   prediction = ''REAL'',
                   rule = ''Rule 4: Override - REAL model has >85% confidence''\<rparr>)
             else
               \<lparr>prob = prob best_fake, confidence = confidence best_fake,
                prediction = ''FAKE'',
                rule = ''Rule 4: Majority vote FAKE (2 vs 1)''\<rparr>))
        }
      else
        do {
          avg_prob \<leftarrow> np_mean (map (\<lambda>e. prob (snd e)) results);
          Some (add_suspicious_flag
            \<lparr>prob = avg_prob,
             confidence = (if avg_prob \<ge> 0.5 then avg_prob else 1 - avg_prob),
             prediction = (if avg_prob \<ge> 0.5 then ''FAKE'' else ''REAL''),
             rule = ''Fallback: Simple average''\<rparr>)
        })"

text \<open>
  Reading \<^verbatim>\<open>was_converted\<close> off an entry the way the callers do,
  \<^verbatim>\<open>.get('was_converted', False)\<close>.
\<close>

definition entry_was_converted :: "'a model_result_scheme \<Rightarrow> bool" where
  "entry_was_converted e = (case single_info e of None \<Rightarrow> False | Some i \<Rightarrow> was_converted i)"

section \<open>Analysing one face\<close>

text \<open>
  \<^verbatim>\<open>extract_aligned_face\<close>: \<open>None\<close> without a detector, otherwise what detection and
  alignment produce (\<open>None\<close> when no face is found or the crop is empty).
\<close>

definition extract_aligned_face :: "('img, 'z) server_scheme \<Rightarrow> 'img \<Rightarrow> 'img option" where
  "extract_aligned_face self image' =
     (if \<not> face_detector self then None else detect_and_align self image')"

text \<open>
  The face that \<^verbatim>\<open>process_image\<close> and \<^verbatim>\<open>process_video\<close> go on with: the aligned face
  when there is a detector, the frame itself otherwise; \<open>None\<close> when the aligner
  returned \<open>None\<close>.
\<close>

definition face_of :: "('img, 'z) server_scheme \<Rightarrow> 'img \<Rightarrow> 'img option" where
  "face_of self frame =
     (if face_detector self then extract_aligned_face self frame else Some frame)"

text \<open>
  The dictionary of one analysed image or frame: the model entries in the order of
  \<^verbatim>\<open>self.models\<close>, and the \<^verbatim>\<open>ENSEMBLE\<close> key when it is present.
\<close>

record frame_result =
  entries :: "(string \<times> model_result) list"
  ENSEMBLE :: "ensemble_result option"

text \<open>
  The loop over \<^verbatim>\<open>self.models.items()\<close>; \<open>dt\<close> is the type of the confidence that the
  calling function hands on.
\<close>

definition run_models ::
  "('img, 'z) server_scheme \<Rightarrow> dtype \<Rightarrow> 'img \<Rightarrow> (string \<times> model_result) list" where
  "run_models self dt face_aligned =
     (let is_single_model = (length (models self) = 1) in
      map (\<lambda>m. (fst m, model_entry self dt is_single_model (snd m face_aligned)))
        (models self))"

text \<open>
  The loop followed by \<^verbatim>\<open>if len(self.models) > 1\<close>, which adds the \<^verbatim>\<open>ENSEMBLE\<close> key. With
  more than one model the dictionary is not empty, so the verdict is never the NaN case
  (\<open>analyse_face_ensemble\<close> below).
\<close>

definition analyse_face ::
  "('img, 'z) server_scheme \<Rightarrow> dtype \<Rightarrow> 'img \<Rightarrow> frame_result" where
  "analyse_face self dt face_aligned =
     (let results = run_models self dt face_aligned in
      \<lparr>entries = results,
       ENSEMBLE = (if length (models self) > 1 then calculate_ensemble_verdict results
                   else None)\<rparr>)"

text \<open>
  How a function ends without its result: the \<^verbatim>\<open>{'error': ...}\<close> dictionary it returns,
  an IndexError or KeyError that leaves it, or a NaN that the real numbers do not carry.
\<close>

datatype failure = Error string | IndexError | KeyError | Unmodelled

text \<open>\<^verbatim>\<open>process_image\<close>; \<open>img\<close> is what \<^verbatim>\<open>cv2.imread\<close> returned.\<close>

definition process_image ::
  "('img, 'z) server_scheme \<Rightarrow> string \<Rightarrow> 'img option \<Rightarrow> failure + frame_result" where
  "process_image self img_path img =
     (case img of
        None \<Rightarrow> Inl (Error (''Failed to load image: '' @ img_path))
      | Some image' \<Rightarrow>
          (case face_of self image' of
             None \<Rightarrow> Inl (Error ''No face detected in image'')
           | Some face_aligned \<Rightarrow> Inr (analyse_face self Float32 face_aligned)))"

section \<open>Video aggregator\<close>

text \<open>
  The running state of the loop of \<^verbatim>\<open>process_video\<close>, and the dictionary it returns.
  \<open>converted_frames\<close> is present in single-model mode only, \<open>suspicious_frames\<close> in
  ensemble mode only.
\<close>

record with_frames =
  frame_results :: "frame_result list"

record video_state = with_frames +
  fake_count :: nat
  real_count :: nat
  suspicious_count :: nat
  converted_count :: nat

record video_result = with_frames +
  video_verdict :: string
  video_confidence :: real
  total_frames_analyzed :: nat
  fake_frames :: nat
  real_frames :: nat
  suspicious_frames :: "nat option"
  converted_frames :: "nat option"
  fake_percentage :: real

definition initial_state :: video_state where
  "initial_state = \<lparr>frame_results = [], fake_count = 0, real_count = 0,
                     suspicious_count = 0, converted_count = 0\<rparr>"

text \<open>
  The counting at the end of the loop body: the frame's dictionary is appended and one
  counter goes up. \<^verbatim>\<open>list(self.models.keys())[0]\<close> raises IndexError when no model is
  loaded.
\<close>

definition count_frame ::
  "('img, 'z) server_scheme \<Rightarrow> video_state \<Rightarrow> frame_result \<Rightarrow> failure + video_state" where
  "count_frame self st frame_result =
     (let is_single_model = (length (models self) = 1);
          st1 = st\<lparr>converted_count := converted_count st +
                   (if is_single_model
                    then length (filter (\<lambda>e. entry_was_converted (snd e)) (entries frame_result))
                    else 0)\<rparr>
      in
      if length (models self) > 1 then
        (case ENSEMBLE frame_result of
           None \<Rightarrow> Inl Unmodelled
         | Some ensemble_result \<Rightarrow>
             Inr ((if suspicious ensemble_result
                   then st1\<lparr>suspicious_count := suspicious_count st1 + 1\<rparr>
                   else if prediction ensemble_result = ''FAKE''
                   then st1\<lparr>fake_count := fake_count st1 + 1\<rparr>
                   else st1\<lparr>real_count := real_count st1 + 1\<rparr>)
                  \<lparr>frame_results := frame_results st1 @ [frame_result]\<rparr>))
      else
        (case models self of
           [] \<Rightarrow> Inl IndexError
         | m # _ \<Rightarrow>
             (case map_of (entries frame_result) (fst m) of
                None \<Rightarrow> Inl KeyError
              | Some e \<Rightarrow>
                  Inr ((if prediction e = ''FAKE''
                        then st1\<lparr>fake_count := fake_count st1 + 1\<rparr>
                        else st1\<lparr>real_count := real_count st1 + 1\<rparr>)
                       \<lparr>frame_results := frame_results st1 @ [frame_result]\<rparr>))))"

text \<open>The loop body: a frame without a face is skipped (\<^verbatim>\<open>continue\<close>).\<close>

definition process_frame ::
  "('img, 'z) server_scheme \<Rightarrow> video_state \<Rightarrow> 'img \<Rightarrow> failure + video_state" where
  "process_frame self st frame =
     (case face_of self frame of
        None \<Rightarrow> Inr st
      | Some face_aligned \<Rightarrow> count_frame self st (analyse_face self Float32 face_aligned))"

fun process_frames ::
  "('img, 'z) server_scheme \<Rightarrow> video_state \<Rightarrow> 'img list \<Rightarrow> failure + video_state" where
  "process_frames self st [] = Inr st"
| "process_frames self st (frame # frames_data) =
     (case process_frame self st frame of
        Inl e \<Rightarrow> Inl e
      | Inr st' \<Rightarrow> process_frames self st' frames_data)"

text \<open>
  \<^verbatim>\<open>[f[model_name] for f in frame_results]\<close>: the entry of one model in every frame;
  \<open>None\<close> is the KeyError of a frame without it.
\<close>

fun entries_of :: "string \<Rightarrow> frame_result list \<Rightarrow> model_result list option" where
  "entries_of model_name [] = Some []"
| "entries_of model_name (f # fs) =
     (case map_of (entries f) model_name of
        None \<Rightarrow> None
      | Some e \<Rightarrow> map_option ((#) e) (entries_of model_name fs))"

text \<open>\<^verbatim>\<open>np.mean(xs) if xs else 0.0\<close>.\<close>

definition mean_or_zero :: "real list \<Rightarrow> real" where
  "mean_or_zero xs = (if xs \<noteq> [] then list_mean xs else 0.0)"

text \<open>The verdict computed after the loop (\<^verbatim>\<open>if frame_results: ... else: ...\<close>).\<close>

definition finish_video ::
  "('img, 'z) server_scheme \<Rightarrow> video_state \<Rightarrow> failure + video_result" where
  "finish_video self st =
     (if frame_results st \<noteq> [] then
        (let total_analyzed = length (frame_results st);
             is_single_model = (length (models self) = 1);
             percentage = (if total_analyzed > 0
                           then (real (fake_count st) / real total_analyzed) * 100 else 0)
         in
         if is_single_model then
           (case models self of
              [] \<Rightarrow> Inl IndexError
            | m # _ \<Rightarrow>
                (case entries_of (fst m) (frame_results st) of
                   None \<Rightarrow> Inl KeyError
                 | Some es \<Rightarrow>
                     Inr (if fake_count st > real_count st then
                            \<lparr>frame_results = frame_results st,
                             video_verdict = ''FAKE'',
                             video_confidence = mean_or_zero
                               (map confidence (filter (\<lambda>e. prediction e = ''FAKE'') es)),
                             total_frames_analyzed = total_analyzed,
                             fake_frames = fake_count st, real_frames = real_count st,
                             suspicious_frames = None,
                             converted_frames = Some (converted_count st),
                             fake_percentage = percentage\<rparr>
                          else
                            \<lparr>frame_results = frame_results st,
                             video_verdict = ''REAL'',
                             video_confidence = mean_or_zero
                               (map confidence (filter (\<lambda>e. prediction e = ''REAL'') es)),
                             total_frames_analyzed = total_analyzed,
                             fake_frames = fake_count st, real_frames = real_count st,
                             suspicious_frames = None,
                             converted_frames = Some (converted_count st),
                             fake_percentage = percentage\<rparr>)))
         else
           (let verdicts = List.map_filter ENSEMBLE (frame_results st);
                suspicious_confidences = map confidence (filter suspicious verdicts);
                fake_confidences = map confidence
                  (filter (\<lambda>ens. \<not> suspicious ens \<and> prediction ens = ''FAKE'') verdicts);
                real_confidences = map confidence
                  (filter (\<lambda>ens. \<not> suspicious ens \<and> prediction ens \<noteq> ''FAKE'') verdicts)
            in
            Inr (if suspicious_count st > fake_count st \<and> suspicious_count st > real_count st
                 then
                   \<lparr>frame_results = frame_results st,
                    video_verdict = ''SUSPICIOUS'',
                    video_confidence = mean_or_zero suspicious_confidences,
                    total_frames_analyzed = total_analyzed,
                    fake_frames = fake_count st, real_frames = real_count st,
                    suspicious_frames = Some (suspicious_count st),
                    converted_frames = None,
                    fake_percentage = percentage\<rparr>
                 else if fake_count st > real_count st then
                   \<lparr>frame_results = frame_results st,
                    video_verdict = ''FAKE'',
                    video_confidence = mean_or_zero fake_confidences,
                    total_frames_analyzed = total_analyzed,
                    fake_frames = fake_count st, real_frames = real_count st,
                    suspicious_frames = Some (suspicious_count st),
                    converted_frames = None,
                    fake_percentage = percentage\<rparr>
                 else
                   \<lparr>frame_results = frame_results st,
                    video_verdict = ''REAL'',
                    video_confidence = mean_or_zero real_confidences,
                    total_frames_analyzed = total_analyzed,
                    fake_frames = fake_count st, real_frames = real_count st,
                    suspicious_frames = Some (suspicious_count st),
                    converted_frames = None,
                    fake_percentage = percentage\<rparr>)))
      else Inl (Error ''No frames could be analyzed (no faces detected)''))"

text \<open>
  \<^verbatim>\<open>process_video\<close>, from what \<^verbatim>\<open>extract_frames_from_video\<close> returned: \<open>Inl\<close> its error
  message, \<open>Inr\<close> the extracted frames.
\<close>

definition process_video ::
  "('img, 'z) server_scheme \<Rightarrow> string + 'img list \<Rightarrow> failure + video_result" where
  "process_video self extracted =
     (case extracted of
        Inl error \<Rightarrow> Inl (Error error)
      | Inr frames_data \<Rightarrow>
          if frames_data = [] then Inl (Error ''No frames extracted from video'')
          else
            (case process_frames self initial_state frames_data of
               Inl e \<Rightarrow> Inl e
             | Inr st \<Rightarrow> finish_video self st))"

section \<open>Streaming handler\<close>

text \<open>
  \<^verbatim>\<open>str.lower\<close> on ASCII text and the substring test \<^verbatim>\<open>sub in s\<close>, which the handler
  applies to error messages.
\<close>

definition lower_char :: "char \<Rightarrow> char" where
  "lower_char c =
     (let n = (of_char c :: nat) in if 65 \<le> n \<and> n \<le> 90 then char_of (n + 32) else c)"

definition lower :: "string \<Rightarrow> string" where
  "lower s = map lower_char s"

fun starts_with :: "'a list \<Rightarrow> 'a list \<Rightarrow> bool" where
  "starts_with [] ys = True"
| "starts_with (x # xs) [] = False"
| "starts_with (x # xs) (y # ys) = (x = y \<and> starts_with xs ys)"

fun contains :: "'a list \<Rightarrow> 'a list \<Rightarrow> bool" where
  "contains sub [] = (sub = [])"
| "contains sub (y # ys) = (starts_with sub (y # ys) \<or> contains sub ys)"

text \<open>
  \<^verbatim>\<open>infer_using_server\<close>: \<open>Inl\<close> is the message of the \<^verbatim>\<open>{'error': ...}\<close> dictionary. The
  aligner runs only when both the detector and the landmark predictor are loaded;
  otherwise the whole image is classified. The confidence is \<^verbatim>\<open>float(prob)\<close> or
  \<^verbatim>\<open>float(1 - prob)\<close>, a Python float. With no model loaded,
  \<^verbatim>\<open>next(iter(server_instance.models.values()))\<close> raises StopIteration, whose empty
  text the \<^verbatim>\<open>except\<close> clause reports.
\<close>

definition infer_using_server ::
  "('img, 'z) server_scheme \<Rightarrow> 'img \<Rightarrow> string + frame_result" where
  "infer_using_server self img_bgr =
     (case (if face_detector self \<and> landmark_predictor self
            then extract_aligned_face self img_bgr else Some img_bgr) of
        None \<Rightarrow> Inl ''No face detected''
      | Some face_aligned \<Rightarrow>
          if models self = [] then Inl ''inference exception: ''
          else Inr (analyse_face self Float64 face_aligned))"

text \<open>
  A parsed message, with the fields the handler reads (\<^verbatim>\<open>msg.get\<close>; \<open>None\<close> is an absent
  key), and a response, with the keys the handler writes (\<open>None\<close> is an absent key, or
  null for \<open>r_id\<close>, \<open>r_ts\<close> and \<open>r_prediction\<close>). The fields carry the prefixes \<open>m_\<close> and \<open>r_\<close>
  since \<open>id\<close> and \<open>prediction\<close> are taken. The model covers messages that are JSON
  objects whose fields have the protocol's types.
\<close>

record message =
  m_type :: "string option"
  m_token :: "string option"
  m_id :: "string option"
  m_ts :: "real option"
  m_frameB64 :: "string option"

record response =
  r_type :: string
  r_id :: "string option"
  r_ts :: "real option"
  r_prediction :: "string option"
  r_confidence :: "real option"
  r_error :: "string option"
  r_models :: "frame_result option"

text \<open>
  The module's configuration: the token, the decoder (\<open>Inl\<close> the text of the exception
  it raised) and the loaded server.
\<close>

record 'img host =
  AUTH_TOKEN :: string
  b64_to_bgr_img :: "string \<Rightarrow> string + 'img"
  server_instance :: "'img server"

record handler_state =
  frame_count :: nat
  client_frame_count :: nat

definition error_response :: "string \<Rightarrow> response" where
  "error_response msg =
     \<lparr>r_type = ''error'', r_id = None, r_ts = None, r_prediction = None,
      r_confidence = None, r_error = Some msg, r_models = None\<rparr>"

text \<open>
  The body of \<^verbatim>\<open>async for raw_msg in ws\<close> for one message (\<open>None\<close>: invalid JSON). The
  result is the response sent and the counters afterwards; \<open>None\<close> is an exception that
  reaches the handler's outer \<^verbatim>\<open>except\<close>, which ends the loop.
\<close>

definition handle_message ::
  "'img host \<Rightarrow> handler_state \<Rightarrow> message option \<Rightarrow> (response \<times> handler_state) option" where
  "handle_message h st raw_msg =
     (case raw_msg of
        None \<Rightarrow> Some (error_response ''invalid json'', st)
      | Some msg \<Rightarrow>
          if AUTH_TOKEN h \<noteq> [] \<and> m_token msg \<noteq> Some (AUTH_TOKEN h)
          then Some (error_response ''invalid token'', st)
          else if m_type msg = Some ''frame'' then
            (let st1 = st\<lparr>frame_count := frame_count st + 1,
                          client_frame_count := client_frame_count st + 1\<rparr>
             in
             if m_frameB64 msg = None \<or> m_frameB64 msg = Some []
             then Some (error_response ''no frame provided'', st1)
             else
               (case b64_to_bgr_img h (the (m_frameB64 msg)) of
                  Inl e \<Rightarrow> Some (error_response (''failed to decode frame: '' @ e), st1)
                | Inr img_bgr \<Rightarrow>
                    (case infer_using_server (server_instance h) img_bgr of
                       Inl error_msg \<Rightarrow>
                         if contains ''no face'' (lower error_msg)
                         then Some (\<lparr>r_type = ''result'', r_id = m_id msg, r_ts = m_ts msg,
                                     r_prediction = Some ''NO_FACE'', r_confidence = Some 0.0,
                                     r_error = Some error_msg, r_models = None\<rparr>, st1)
                         else Some (error_response error_msg, st1)
                     | Inr results \<Rightarrow>
                         (let is_single_model = (length (models (server_instance h)) = 1) in
                          case ENSEMBLE results of
                            Some ensemble_info \<Rightarrow>
                              Some (\<lparr>r_type = ''result'', r_id = m_id msg, r_ts = m_ts msg,
                                     r_prediction = Some (prediction ensemble_info),
                                     r_confidence = Some (confidence ensemble_info),
                                     r_error = None, r_models = Some results\<rparr>, st1)
                          | None \<Rightarrow>
                              if is_single_model then
                                (case models (server_instance h) of
                                   [] \<Rightarrow> None
                                 | m # _ \<Rightarrow>
                                     (case map_of (entries results) (fst m) of
                                        None \<Rightarrow> None
                                      | Some e \<Rightarrow>
                                          Some (\<lparr>r_type = ''result'', r_id = m_id msg,
                                                 r_ts = m_ts msg,
                                                 r_prediction = Some (prediction e),
                                                 r_confidence = Some (confidence e),
                                                 r_error = None, r_models = Some results\<rparr>,
                                                st1)))
                              else
                                Some (\<lparr>r_type = ''result'', r_id = m_id msg, r_ts = m_ts msg,
                                       r_prediction =
                                         (case entries results of
                                            [] \<Rightarrow> None
                                          | e # _ \<Rightarrow> Some (prediction (snd e))),
                                       r_confidence = Some 0.0,
                                       r_error = None, r_models = Some results\<rparr>, st1)))))
          else Some (error_response ''unknown message type'', st))"

text \<open>
  The handler on the messages that arrive before the connection closes: the responses
  it sends, in order.
\<close>

fun handler :: "'img host \<Rightarrow> handler_state \<Rightarrow> message option list \<Rightarrow> response list" where
  "handler h st [] = []"
| "handler h st (raw_msg # rest) =
     (case handle_message h st raw_msg of
        None \<Rightarrow> []
      | Some (resp, st') \<Rightarrow> resp # handler h st' rest)"

section \<open>Notions for stating the properties\<close>

text \<open>
  The faces of the frames that the loop of \<^verbatim>\<open>process_video\<close> does not skip, and the
  ensemble verdicts of these faces, in the order of the frames.
\<close>

definition scored_faces :: "('img, 'z) server_scheme \<Rightarrow> 'img list \<Rightarrow> 'img list" where
  "scored_faces self frames_data = List.map_filter (face_of self) frames_data"

definition frame_verdicts ::
  "('img, 'z) server_scheme \<Rightarrow> 'img list \<Rightarrow> ensemble_result list" where
  "frame_verdicts self frames_data =
     List.map_filter (\<lambda>face. calculate_ensemble_verdict (run_models self Float32 face))
       (scored_faces self frames_data)"

section \<open>Properties of the frame decision engine\<close>

subsection \<open>The greatest confidence\<close>

lemma confidence_foldl_max:
  "confidence (foldl (\<lambda>best y. if confidence best < confidence y then y else best) x xs) =
   fold max (map confidence xs) (confidence x)"
  by (induction xs arbitrary: x) (auto simp: max_def)

lemma max_by_confidence_Max:
  assumes "max_by_confidence xs = Some v"
  shows "confidence v = Max (confidence ` set xs)"
proof (cases xs)
  case Nil
  with assms show ?thesis by simp
next
  case (Cons x ys)
  with assms have "confidence v = fold max (map confidence ys) (confidence x)"
    by (auto simp: confidence_foldl_max)
  also have "\<dots> = Max (set (confidence x # map confidence ys))"
    by (simp only: Max.set_eq_fold)
  finally show ?thesis using Cons by simp
qed

lemma max_by_confidence_Some:
  "xs \<noteq> [] \<Longrightarrow> \<exists>v. max_by_confidence xs = Some v"
  by (cases xs) auto

subsection \<open>Voting returns a flagged verdict\<close>

lemma max_by_confidence_pos:
  "0 < length xs \<Longrightarrow>
   max_by_confidence xs =
     Some (foldl (\<lambda>best y. if confidence best < confidence y then y else best) (hd xs) (tl xs))"
  by (cases xs) auto

lemma first_vote_pos:
  "0 < length xs \<Longrightarrow> (case xs of [] \<Rightarrow> None | v # _ \<Rightarrow> Some v) = Some (hd xs)"
  by (cases xs) auto

lemma calculate_ensemble_verdict_defined:
  "results \<noteq> [] \<Longrightarrow> \<exists>v. calculate_ensemble_verdict results = Some v"
  by (simp add: calculate_ensemble_verdict_def Let_def np_mean_def
      max_by_confidence_pos first_vote_pos)

lemma calculate_ensemble_verdict_flagged:
  "calculate_ensemble_verdict results = Some v \<Longrightarrow> \<exists>r. v = add_suspicious_flag r"
  by (auto simp: calculate_ensemble_verdict_def Let_def np_mean_def
      max_by_confidence_pos first_vote_pos split: if_splits)

lemma calculate_ensemble_verdict_rule:
  "calculate_ensemble_verdict results = Some v \<Longrightarrow>
   rule v \<in> {''Rule 1: All models predict FAKE'', ''Rule 2: All models predict REAL'',
             ''Rule 3: Counter-Override - Both sides >85%, majority wins (REAL)'',
             ''Rule 3: Override - FAKE model has >85% confidence'',
             ''Rule 3: Majority vote REAL (2 vs 1)'',
             ''Rule 4: Counter-Override - Both sides >85%, majority wins (FAKE)'',
             ''Rule 4: Override - REAL model has >85% confidence'',
             ''Rule 4: Majority vote FAKE (2 vs 1)'',
             ''Fallback: Simple average''}"
  by (auto simp: calculate_ensemble_verdict_def Let_def np_mean_def add_suspicious_flag_def
      max_by_confidence_pos first_vote_pos split: if_splits)

lemma add_suspicious_flag_iff:
  "suspicious (add_suspicious_flag r) =
     (0.50 \<le> confidence (add_suspicious_flag r) \<and> confidence (add_suspicious_flag r) \<le> 0.65)"
  by (simp add: add_suspicious_flag_def Let_def)


subsection \<open>Rules 3 and 4\<close>

lemma rule3_verdict:
  assumes f: "fake_predictions results = [fv]" and r: "length (real_predictions results) = 2"
  shows "\<exists>v. calculate_ensemble_verdict results = Some v \<and>
      (let f = confidence fv; r = Max (confidence ` set (real_predictions results)) in
       if f > 0.85 \<and> r > 0.85 then prediction v = ''REAL'' \<and> confidence v = r
       else if f > 0.85 \<and> r \<le> 0.85 then prediction v = ''FAKE'' \<and> confidence v = f
       else prediction v = ''REAL'' \<and> confidence v = r)"
proof -
  from r have "real_predictions results \<noteq> []" by auto
  then obtain b where b: "max_by_confidence (real_predictions results) = Some b"
    using max_by_confidence_Some by blast
  have m: "confidence b = Max (confidence ` set (real_predictions results))"
    using max_by_confidence_Max [OF b] .
  show ?thesis
    using f r b m
    by (simp add: calculate_ensemble_verdict_def add_suspicious_flag_def Let_def)
qed

lemma rule4_verdict:
  assumes r: "real_predictions results = [rv]" and f: "length (fake_predictions results) = 2"
  shows "\<exists>v. calculate_ensemble_verdict results = Some v \<and>
      (let r = confidence rv; f = Max (confidence ` set (fake_predictions results)) in
       if r > 0.85 \<and> f > 0.85 then prediction v = ''FAKE'' \<and> confidence v = f
       else if r > 0.85 \<and> f \<le> 0.85 then prediction v = ''REAL'' \<and> confidence v = r
       else prediction v = ''FAKE'' \<and> confidence v = f)"
proof -
  from f have "fake_predictions results \<noteq> []" by auto
  then obtain b where b: "max_by_confidence (fake_predictions results) = Some b"
    using max_by_confidence_Some by blast
  have m: "confidence b = Max (confidence ` set (fake_predictions results))"
    using max_by_confidence_Max [OF b] .
  show ?thesis
    using f r b m
    by (simp add: calculate_ensemble_verdict_def add_suspicious_flag_def Let_def)
qed

lemma override_scenario:
  "calculate_ensemble_verdict
       [(n1, \<lparr>prob = p1, confidence = 0.90, prediction = ''FAKE''\<rparr>),
        (n2, \<lparr>prob = p2, confidence = 0.60, prediction = ''REAL''\<rparr>),
        (n3, \<lparr>prob = p3, confidence = 0.55, prediction = ''REAL''\<rparr>)] =
     Some \<lparr>prob = p1, confidence = 0.90, prediction = ''FAKE'',
           rule = ''Rule 3: Override - FAKE model has >85% confidence'', suspicious = False\<rparr>"
  by (simp add: calculate_ensemble_verdict_def add_suspicious_flag_def Let_def
      fake_predictions_def real_predictions_def as_vote_def)

text \<open>
  Claim C1. With exactly one FAKE vote \<open>fv\<close> and two REAL votes, the verdict is REAL with
  the best REAL confidence when both the FAKE vote and the best REAL vote are above 0.85
  (counter-override), FAKE with the FAKE vote's confidence when only the FAKE vote is
  above 0.85 (override), and REAL with the best REAL confidence otherwise (majority).
  Two FAKE votes against one REAL vote \<open>rv\<close> behave the same with the roles swapped.
  The votes (FAKE, 0.90), (REAL, 0.60), (REAL, 0.55) give FAKE with confidence 0.90.
\<close>

theorem C1_one_against_two:
  "(fake_predictions results = [fv] \<and> length (real_predictions results) = 2 \<longrightarrow>
      (\<exists>v. calculate_ensemble_verdict results = Some v \<and>
        (let f = confidence fv; r = Max (confidence ` set (real_predictions results)) in
         if f > 0.85 \<and> r > 0.85 then prediction v = ''REAL'' \<and> confidence v = r
         else if f > 0.85 \<and> r \<le> 0.85 then prediction v = ''FAKE'' \<and> confidence v = f
         else prediction v = ''REAL'' \<and> confidence v = r)))
   \<and> (real_predictions results = [rv] \<and> length (fake_predictions results) = 2 \<longrightarrow>
      (\<exists>v. calculate_ensemble_verdict results = Some v \<and>
        (let r = confidence rv; f = Max (confidence ` set (fake_predictions results)) in
         if r > 0.85 \<and> f > 0.85 then prediction v = ''FAKE'' \<and> confidence v = f
         else if r > 0.85 \<and> f \<le> 0.85 then prediction v = ''REAL'' \<and> confidence v = r
         else prediction v = ''FAKE'' \<and> confidence v = f)))
   \<and> (\<exists>v. calculate_ensemble_verdict
             [(n1, \<lparr>prob = p1, confidence = 0.90, prediction = ''FAKE''\<rparr>),
              (n2, \<lparr>prob = p2, confidence = 0.60, prediction = ''REAL''\<rparr>),
              (n3, \<lparr>prob = p3, confidence = 0.55, prediction = ''REAL''\<rparr>)] = Some v
          \<and> prediction v = ''FAKE'' \<and> confidence v = 0.90)"
  using rule3_verdict [of results fv] rule4_verdict [of results rv]
    override_scenario [of n1 p1 n2 p2 n3 p3]
  by simp

theorem C1_one_against_two_witness:
  "(\<exists>v. calculate_ensemble_verdict
     [(''FaceForensics'', \<lparr>prob = 0.90, confidence = 0.90, prediction = ''FAKE''\<rparr>),
      (''SDv14'', \<lparr>prob = 0.12, confidence = 0.88, prediction = ''REAL''\<rparr>),
      (''Chameleon'', \<lparr>prob = 0.45, confidence = 0.55, prediction = ''REAL''\<rparr>)] = Some v
      \<and> prediction v = ''REAL'' \<and> confidence v = 0.88)
   \<and> (\<exists>v. calculate_ensemble_verdict
     [(''FaceForensics'', \<lparr>prob = 0.70, confidence = 0.70, prediction = ''FAKE''\<rparr>),
      (''SDv14'', \<lparr>prob = 0.10, confidence = 0.90, prediction = ''REAL''\<rparr>),
      (''Chameleon'', \<lparr>prob = 0.80, confidence = 0.80, prediction = ''FAKE''\<rparr>)] = Some v
      \<and> prediction v = ''REAL'' \<and> confidence v = 0.90)"
proof
  have "fake_predictions
     [(''FaceForensics'', \<lparr>prob = 0.90, confidence = 0.90, prediction = ''FAKE''\<rparr>),
      (''SDv14'', \<lparr>prob = 0.12, confidence = 0.88, prediction = ''REAL''\<rparr>),
      (''Chameleon'', \<lparr>prob = 0.45, confidence = 0.55, prediction = ''REAL''\<rparr>)]
     = [\<lparr>prob = 0.90, confidence = 0.90, model = ''FaceForensics''\<rparr>]
    \<and> length (real_predictions
     [(''FaceForensics'', \<lparr>prob = 0.90, confidence = 0.90, prediction = ''FAKE''\<rparr>),
      (''SDv14'', \<lparr>prob = 0.12, confidence = 0.88, prediction = ''REAL''\<rparr>),
      (''Chameleon'', \<lparr>prob = 0.45, confidence = 0.55, prediction = ''REAL''\<rparr>)]) = 2"
    by (simp add: fake_predictions_def real_predictions_def as_vote_def)
  from C1_one_against_two [THEN conjunct1, rule_format, OF this]
  show "\<exists>v. calculate_ensemble_verdict
     [(''FaceForensics'', \<lparr>prob = 0.90, confidence = 0.90, prediction = ''FAKE''\<rparr>),
      (''SDv14'', \<lparr>prob = 0.12, confidence = 0.88, prediction = ''REAL''\<rparr>),
      (''Chameleon'', \<lparr>prob = 0.45, confidence = 0.55, prediction = ''REAL''\<rparr>)] = Some v
      \<and> prediction v = ''REAL'' \<and> confidence v = 0.88"
    by (simp add: real_predictions_def as_vote_def Let_def)
next
  have "real_predictions
     [(''FaceForensics'', \<lparr>prob = 0.70, confidence = 0.70, prediction = ''FAKE''\<rparr>),
      (''SDv14'', \<lparr>prob = 0.10, confidence = 0.90, prediction = ''REAL''\<rparr>),
      (''Chameleon'', \<lparr>prob = 0.80, confidence = 0.80, prediction = ''FAKE''\<rparr>)]
     = [\<lparr>prob = 0.10, confidence = 0.90, model = ''SDv14''\<rparr>]
    \<and> length (fake_predictions
     [(''FaceForensics'', \<lparr>prob = 0.70, confidence = 0.70, prediction = ''FAKE''\<rparr>),
      (''SDv14'', \<lparr>prob = 0.10, confidence = 0.90, prediction = ''REAL''\<rparr>),
      (''Chameleon'', \<lparr>prob = 0.80, confidence = 0.80, prediction = ''FAKE''\<rparr>)]) = 2"
    by (simp add: fake_predictions_def real_predictions_def as_vote_def)
  from C1_one_against_two [THEN conjunct2, THEN conjunct1, rule_format, OF this]
  show "\<exists>v. calculate_ensemble_verdict
     [(''FaceForensics'', \<lparr>prob = 0.70, confidence = 0.70, prediction = ''FAKE''\<rparr>),
      (''SDv14'', \<lparr>prob = 0.10, confidence = 0.90, prediction = ''REAL''\<rparr>),
      (''Chameleon'', \<lparr>prob = 0.80, confidence = 0.80, prediction = ''FAKE''\<rparr>)] = Some v
      \<and> prediction v = ''REAL'' \<and> confidence v = 0.90"
    by (simp add: fake_predictions_def as_vote_def Let_def)
qed

subsection \<open>Threshold and boost in the two precisions\<close>

lemma float32_spacing_upper_half:
  "1 / 2 \<le> x \<Longrightarrow> x < 1 \<Longrightarrow> float32_spacing x = 1 / 2 ^ 24"
  by (simp add: float32_spacing_def eval_nat_numeral)

text \<open>The float32 nearest to 0.7 is 0.699999988079071044921875, below 0.7.\<close>

lemma to_float32_seven_tenths: "to_float32 (7 / 10) = 11744051 / 16777216"
  by (simp add: to_float32_def float32_spacing_upper_half round_half_even_def)

text \<open>
  What the loop writes in single-model mode, in either precision: the three cases of
  \<^verbatim>\<open>_apply_confidence_threshold\<close>, with the threshold as the comparison sees it.
\<close>

lemma model_entry_adjusted:
  "(let T = compared_threshold dt (FAKE_CONFIDENCE_THRESHOLD self);
        B = REAL_CONFIDENCE_BOOST self;
        label = (if p \<ge> 0.5 then ''FAKE'' else ''REAL''); c = max p (1 - p);
        e = model_entry self dt True p
    in (if label = ''FAKE'' \<and> c < T
        then prediction e = ''REAL'' \<and> confidence e = min (c + B) 1.0 \<and> entry_was_converted e
        else if label = ''REAL''
        then prediction e = ''REAL'' \<and> confidence e = min (c + B) 1.0 \<and> \<not> entry_was_converted e
        else prediction e = label \<and> confidence e = c \<and> \<not> entry_was_converted e))"
  by (auto simp: model_entry_def apply_confidence_threshold_def pred_label_def
      raw_confidence_def entry_was_converted_def Let_def max_def)

text \<open>
  The scenario of the specification holds in both precisions: raw probability 0.60
  with \<open>T = 0.70\<close> and \<open>B = 0.25\<close> gives REAL, 0.85, converted.
\<close>

lemma model_entry_scenario:
  "(let e = model_entry
              (self\<lparr>FAKE_CONFIDENCE_THRESHOLD := 0.70, REAL_CONFIDENCE_BOOST := 0.25\<rparr>) dt True 0.60
    in prediction e = ''REAL'' \<and> confidence e = 0.85 \<and> entry_was_converted e)"
  by (cases dt)
    (simp_all add: model_entry_def apply_confidence_threshold_def pred_label_def
      raw_confidence_def entry_was_converted_def Let_def to_float32_seven_tenths)

text \<open>
  Claim C2 says that a raw FAKE whose confidence is below the threshold \<open>T\<close> becomes REAL
  with the boosted confidence and \<^verbatim>\<open>was_converted\<close> set, as the docstring of
  \<^verbatim>\<open>_apply_confidence_threshold\<close> does. In \<^verbatim>\<open>process_image\<close> and \<^verbatim>\<open>process_video\<close> the
  code misses it where the float32 confidence equals the threshold converted to
  float32 and that lies below \<open>T\<close>: with \<open>T = 0.70\<close> and \<open>B = 0.25\<close>, the probability
  \<open>11744051 / 16777216\<close> (the float32 nearest to 0.7) has raw label FAKE and confidence
  below \<open>T\<close>, and its entry stays FAKE, unconverted. The entry of
  \<^verbatim>\<open>infer_using_server\<close>, which converts the probability to a Python float first, is
  REAL, 0.949999988..., converted, as the claim says.
\<close>

theorem C2_float32_threshold_miss:
  "pred_label (11744051 / 16777216) = ''FAKE''
   \<and> raw_confidence (11744051 / 16777216) < 0.70
   \<and> model_entry
        \<lparr>FAKE_CONFIDENCE_THRESHOLD = 0.70, REAL_CONFIDENCE_BOOST = 0.25, models = [],
         face_detector = True, landmark_predictor = True,
         detect_and_align = (Some :: unit \<Rightarrow> unit option)\<rparr>
        Float32 True (11744051 / 16777216)
      = \<lparr>prob = 11744051 / 16777216, confidence = 11744051 / 16777216,
         prediction = ''FAKE'',
         single_info = Some \<lparr>original_prediction = ''FAKE'',
                             original_confidence = 11744051 / 16777216,
                             was_converted = False\<rparr>\<rparr>
   \<and> model_entry
        \<lparr>FAKE_CONFIDENCE_THRESHOLD = 0.70, REAL_CONFIDENCE_BOOST = 0.25, models = [],
         face_detector = True, landmark_predictor = True,
         detect_and_align = (Some :: unit \<Rightarrow> unit option)\<rparr>
        Float64 True (11744051 / 16777216)
      = \<lparr>prob = 11744051 / 16777216, confidence = 15938355 / 16777216,
         prediction = ''REAL'',
         single_info = Some \<lparr>original_prediction = ''FAKE'',
                             original_confidence = 11744051 / 16777216,
                             was_converted = True\<rparr>\<rparr>"
  by (simp add: model_entry_def apply_confidence_threshold_def pred_label_def
      raw_confidence_def to_float32_seven_tenths)

text \<open>
  Claim C4, as stated, fails: with \<open>T = 0.70\<close> and \<open>B = 0.25\<close> a REAL prediction of
  confidence 0.6 is adjusted to (REAL, 0.85, unconverted), and adjusting that output
  gives (REAL, 1.0, unconverted): the confidence is boosted a second time.
\<close>

theorem C4_idempotent_counterexample:
  "apply_confidence_threshold
     \<lparr>FAKE_CONFIDENCE_THRESHOLD = 0.70, REAL_CONFIDENCE_BOOST = 0.25, models = [],
      face_detector = True, landmark_predictor = True,
      detect_and_align = (Some :: unit \<Rightarrow> unit option)\<rparr> 0.4 ''REAL'' 0.6 = (''REAL'', 0.85, False)
   \<and> apply_confidence_threshold
     \<lparr>FAKE_CONFIDENCE_THRESHOLD = 0.70, REAL_CONFIDENCE_BOOST = 0.25, models = [],
      face_detector = True, landmark_predictor = True,
      detect_and_align = (Some :: unit \<Rightarrow> unit option)\<rparr> 0.4 ''REAL'' 0.85 = (''REAL'', 1, False)
   \<and> (''REAL'', 1::real, False) \<noteq> (''REAL'', 0.85, False)"
  by (simp add: apply_confidence_threshold_def)

text \<open>
  Claim C4, amended. Adjusting the output of an adjustment again keeps the label and
  never converts (the second \<^verbatim>\<open>was_converted\<close> is false, so a converted REAL is not
  converted again); the confidence is kept when the label is not REAL, and a REAL
  output of confidence \<open>c'\<close> is boosted again, to \<open>min (c' + B) 1\<close>.
\<close>

theorem C4_readjust:
  "(case apply_confidence_threshold self p l c of
      (l', c', w') \<Rightarrow>
        apply_confidence_threshold self p' l' c' =
          (l', if l' = ''REAL'' then min (c' + REAL_CONFIDENCE_BOOST self) 1.0 else c', False))"
  by (simp add: apply_confidence_threshold_def Let_def)

text \<open>
  Claim C8. Every verdict that ensemble voting returns, whichever of the five rules
  chose it, is the chosen rule's verdict with the suspicious flag added afterwards, and
  the flag is set exactly when the verdict's confidence lies in [0.50, 0.65], bounds
  included. Voting over a non-empty dictionary always returns a verdict.
\<close>

theorem C8_suspicious_flag:
  "(results \<noteq> [] \<longrightarrow> (\<exists>v. calculate_ensemble_verdict results = Some v))
   \<and> (calculate_ensemble_verdict results = Some v \<longrightarrow>
        (\<exists>r. v = add_suspicious_flag r)
        \<and> suspicious v = (0.50 \<le> confidence v \<and> confidence v \<le> 0.65)
        \<and> rule v \<in> {''Rule 1: All models predict FAKE'', ''Rule 2: All models predict REAL'',
             ''Rule 3: Counter-Override - Both sides >85%, majority wins (REAL)'',
             ''Rule 3: Override - FAKE model has >85% confidence'',
             ''Rule 3: Majority vote REAL (2 vs 1)'',
             ''Rule 4: Counter-Override - Both sides >85%, majority wins (FAKE)'',
             ''Rule 4: Override - REAL model has >85% confidence'',
             ''Rule 4: Majority vote FAKE (2 vs 1)'',
             ''Fallback: Simple average''})"
proof (intro conjI impI)
  assume "results \<noteq> []"
  then show "\<exists>v. calculate_ensemble_verdict results = Some v"
    by (rule calculate_ensemble_verdict_defined)
next
  assume v: "calculate_ensemble_verdict results = Some v"
  then show flagged: "\<exists>r. v = add_suspicious_flag r"
    by (rule calculate_ensemble_verdict_flagged)
  then show "suspicious v = (0.50 \<le> confidence v \<and> confidence v \<le> 0.65)"
    using add_suspicious_flag_iff by blast
  from v show "rule v \<in> {''Rule 1: All models predict FAKE'', ''Rule 2: All models predict REAL'',
             ''Rule 3: Counter-Override - Both sides >85%, majority wins (REAL)'',
             ''Rule 3: Override - FAKE model has >85% confidence'',
             ''Rule 3: Majority vote REAL (2 vs 1)'',
             ''Rule 4: Counter-Override - Both sides >85%, majority wins (FAKE)'',
             ''Rule 4: Override - REAL model has >85% confidence'',
             ''Rule 4: Majority vote FAKE (2 vs 1)'',
             ''Fallback: Simple average''}"
    by (rule calculate_ensemble_verdict_rule)
qed

theorem C8_suspicious_flag_witness:
  "calculate_ensemble_verdict
       [(''FaceForensics'', \<lparr>prob = 0.65, confidence = 0.65, prediction = ''FAKE''\<rparr>),
        (''SDv14'', \<lparr>prob = 0.60, confidence = 0.60, prediction = ''FAKE''\<rparr>),
        (''Chameleon'', \<lparr>prob = 0.55, confidence = 0.55, prediction = ''FAKE''\<rparr>)]
      = Some \<lparr>prob = 0.65, confidence = 0.65, prediction = ''FAKE'',
              rule = ''Rule 1: All models predict FAKE'', suspicious = True\<rparr>
   \<and> (\<exists>r. \<lparr>prob = 0.65, confidence = 0.65, prediction = ''FAKE'',
              rule = ''Rule 1: All models predict FAKE'', suspicious = True\<rparr>
            = add_suspicious_flag r)
   \<and> calculate_ensemble_verdict
       [(''FaceForensics'', \<lparr>prob = 0.50, confidence = 0.50, prediction = ''FAKE''\<rparr>),
        (''SDv14'', \<lparr>prob = 0.50, confidence = 0.50, prediction = ''FAKE''\<rparr>)]
      = Some \<lparr>prob = 0.50, confidence = 0.50, prediction = ''FAKE'',
              rule = ''Fallback: Simple average'', suspicious = True\<rparr>
   \<and> (\<exists>r. \<lparr>prob = 0.50, confidence = 0.50, prediction = ''FAKE'',
              rule = ''Fallback: Simple average'', suspicious = True\<rparr>
            = add_suspicious_flag r)"
proof -
  have a: "calculate_ensemble_verdict
       [(''FaceForensics'', \<lparr>prob = 0.65, confidence = 0.65, prediction = ''FAKE''\<rparr>),
        (''SDv14'', \<lparr>prob = 0.60, confidence = 0.60, prediction = ''FAKE''\<rparr>),
        (''Chameleon'', \<lparr>prob = 0.55, confidence = 0.55, prediction = ''FAKE''\<rparr>)]
      = Some \<lparr>prob = 0.65, confidence = 0.65, prediction = ''FAKE'',
              rule = ''Rule 1: All models predict FAKE'', suspicious = True\<rparr>"
    by (simp add: calculate_ensemble_verdict_def add_suspicious_flag_def Let_def
        fake_predictions_def real_predictions_def as_vote_def)
  have b: "calculate_ensemble_verdict
       [(''FaceForensics'', \<lparr>prob = 0.50, confidence = 0.50, prediction = ''FAKE''\<rparr>),
        (''SDv14'', \<lparr>prob = 0.50, confidence = 0.50, prediction = ''FAKE''\<rparr>)]
      = Some \<lparr>prob = 0.50, confidence = 0.50, prediction = ''FAKE'',
              rule = ''Fallback: Simple average'', suspicious = True\<rparr>"
    by (simp add: calculate_ensemble_verdict_def add_suspicious_flag_def Let_def
        fake_predictions_def real_predictions_def as_vote_def np_mean_def list_mean_def)
  from C8_suspicious_flag [THEN conjunct2, rule_format, OF a]
    C8_suspicious_flag [THEN conjunct2, rule_format, OF b] a b
  show ?thesis by blast
qed

text \<open>
  In either precision no entry of single-model mode is FAKE with a confidence below the
  threshold as the comparison sees it, and a raw FAKE below that threshold is written
  as REAL. For a Python float confidence (\<^verbatim>\<open>infer_using_server\<close>) this is the threshold
  \<open>T\<close> itself.
\<close>

lemma no_fake_below_compared_threshold:
  "(prediction (model_entry self dt True p) = ''FAKE'' \<longrightarrow>
      confidence (model_entry self dt True p)
        \<ge> compared_threshold dt (FAKE_CONFIDENCE_THRESHOLD self))
   \<and> (pred_label p = ''FAKE''
       \<and> raw_confidence p < compared_threshold dt (FAKE_CONFIDENCE_THRESHOLD self) \<longrightarrow>
      prediction (model_entry self dt True p) = ''REAL'')"
  by (simp add: model_entry_def apply_confidence_threshold_def pred_label_def
      raw_confidence_def Let_def)

text \<open>
  Claim C10 says that single-model mode never returns FAKE with a confidence below the
  threshold \<open>T\<close>, as the docstring and the start-up message of the server do.
  \<^verbatim>\<open>process_image\<close> does return it: with \<open>T = 0.70\<close> and a model whose probability for the
  image is \<open>11744051 / 16777216\<close> (the float32 nearest to 0.7), the entry is FAKE with
  confidence 0.699999988... below \<open>T\<close>, unconverted, since the float32 comparison is
  against the threshold converted to float32. On the same image
  \<^verbatim>\<open>infer_using_server\<close>, which compares Python floats, returns REAL, converted.
\<close>

theorem C10_fake_below_threshold:
  "process_image
     \<lparr>FAKE_CONFIDENCE_THRESHOLD = 0.70, REAL_CONFIDENCE_BOOST = 0.25,
      models = [(''Custom'', \<lambda>face::real. face)], face_detector = False,
      landmark_predictor = False, detect_and_align = (\<lambda>face. None)\<rparr>
     ''frame.jpg'' (Some (11744051 / 16777216))
   = Inr \<lparr>entries =
            [(''Custom'',
              \<lparr>prob = 11744051 / 16777216, confidence = 11744051 / 16777216,
               prediction = ''FAKE'',
               single_info = Some \<lparr>original_prediction = ''FAKE'',
                                   original_confidence = 11744051 / 16777216,
                                   was_converted = False\<rparr>\<rparr>)],
          ENSEMBLE = None\<rparr>
   \<and> (11744051 / 16777216 :: real) < 0.70
   \<and> infer_using_server
     \<lparr>FAKE_CONFIDENCE_THRESHOLD = 0.70, REAL_CONFIDENCE_BOOST = 0.25,
      models = [(''Custom'', \<lambda>face::real. face)], face_detector = False,
      landmark_predictor = False, detect_and_align = (\<lambda>face. None)\<rparr>
     (11744051 / 16777216)
   = Inr \<lparr>entries =
            [(''Custom'',
              \<lparr>prob = 11744051 / 16777216, confidence = 15938355 / 16777216,
               prediction = ''REAL'',
               single_info = Some \<lparr>original_prediction = ''FAKE'',
                                   original_confidence = 11744051 / 16777216,
                                   was_converted = True\<rparr>\<rparr>)],
          ENSEMBLE = None\<rparr>"
  by (simp add: process_image_def infer_using_server_def face_of_def analyse_face_def
      run_models_def model_entry_def apply_confidence_threshold_def pred_label_def
      raw_confidence_def to_float32_seven_tenths)

section \<open>Properties of the video aggregator\<close>

subsection \<open>The loop over the frames\<close>

lemma scored_faces_Nil: "scored_faces self [] = []"
  by (simp add: scored_faces_def map_filter_simps)

lemma scored_faces_Cons:
  "scored_faces self (frame # frames_data) =
     (case face_of self frame of
        None \<Rightarrow> scored_faces self frames_data
      | Some face \<Rightarrow> face # scored_faces self frames_data)"
  by (simp add: scored_faces_def map_filter_simps split: option.splits)

lemma run_models_length: "length (run_models self dt face) = length (models self)"
  by (simp add: run_models_def)

lemma analyse_face_ensemble:
  assumes "length (models self) > 1"
  shows "\<exists>v. ENSEMBLE (analyse_face self dt face) = Some v"
proof -
  have "run_models self dt face \<noteq> []"
    using assms run_models_length [of self dt face] by auto
  then show ?thesis
    using assms calculate_ensemble_verdict_defined by (simp add: analyse_face_def Let_def)
qed

lemma count_frame_length:
  assumes "count_frame self st fr = Inr st'"
  shows "frame_results st' = frame_results st @ [fr]
    \<and> fake_count st' + real_count st' + suspicious_count st'
        = Suc (fake_count st + real_count st + suspicious_count st)
    \<and> (length (models self) \<le> 1 \<longrightarrow> suspicious_count st' = suspicious_count st)"
  using assms
  by (auto simp: count_frame_def Let_def split: if_splits option.splits list.splits)

lemma process_frames_counts:
  assumes "process_frames self st frames_data = Inr st'"
  shows "frame_results st' = frame_results st @ map (analyse_face self Float32) (scored_faces self frames_data)
    \<and> fake_count st' + real_count st' + suspicious_count st'
        = fake_count st + real_count st + suspicious_count st
          + length (scored_faces self frames_data)
    \<and> (length (models self) \<le> 1 \<longrightarrow> suspicious_count st' = suspicious_count st)"
  using assms
proof (induction frames_data arbitrary: st)
  case Nil
  then show ?case by (simp add: scored_faces_Nil)
next
  case (Cons frame frames_data)
  show ?case
  proof (cases "face_of self frame")
    case None
    with Cons.prems have "process_frames self st frames_data = Inr st'"
      by (simp add: process_frame_def)
    from Cons.IH [OF this] None show ?thesis
      by (simp add: scored_faces_Cons)
  next
    case (Some face)
    with Cons.prems obtain st1 where
      c: "count_frame self st (analyse_face self Float32 face) = Inr st1" and
      r: "process_frames self st1 frames_data = Inr st'"
      by (auto simp: process_frame_def split: sum.splits)
    from Cons.IH [OF r] count_frame_length [OF c] Some show ?thesis
      by (simp add: scored_faces_Cons)
  qed
qed

lemma scored_faces_filter:
  "scored_faces self (filter (\<lambda>frame. face_of self frame \<noteq> None) frames_data)
     = scored_faces self frames_data"
  by (induction frames_data) (auto simp: scored_faces_Cons scored_faces_Nil)

lemma length_scored_faces:
  "length (scored_faces self frames_data)
     = length (filter (\<lambda>frame. face_of self frame \<noteq> None) frames_data)"
  by (induction frames_data) (auto simp: scored_faces_Cons scored_faces_Nil)

lemma process_frames_filter:
  "process_frames self st (filter (\<lambda>frame. face_of self frame \<noteq> None) frames_data)
     = process_frames self st frames_data"
proof (induction frames_data arbitrary: st)
  case Nil
  show ?case by simp
next
  case (Cons frame frames_data)
  show ?case
  proof (cases "face_of self frame")
    case None
    then show ?thesis using Cons.IH [of st] by (simp add: process_frame_def)
  next
    case (Some face)
    then show ?thesis using Cons.IH by (simp split: sum.splits)
  qed
qed

lemma finish_video_fields:
  assumes "finish_video self st = Inr r"
  shows "frame_results st \<noteq> [] \<and> total_frames_analyzed r = length (frame_results st)
    \<and> fake_frames r = fake_count st \<and> real_frames r = real_count st
    \<and> suspicious_frames r
        = (if length (models self) = 1 then None else Some (suspicious_count st))
    \<and> converted_frames r
        = (if length (models self) = 1 then Some (converted_count st) else None)"
  using assms
  by (auto simp: finish_video_def Let_def split: if_splits list.splits option.splits)

lemma process_frames_no_models:
  assumes "models self = []" and "process_frames self st frames_data = Inr st'"
  shows "st' = st"
  using assms(2)
proof (induction frames_data arbitrary: st)
  case Nil
  then show ?case by simp
next
  case (Cons frame frames_data)
  then show ?case
    using assms(1)
    by (auto simp: process_frame_def count_frame_def split: option.splits sum.splits)
qed

text \<open>
  Claim C7. In every video verdict the frame counts add up to the number of frames
  analysed: fake and real frames in single-model mode (which has no suspicious count),
  fake, real and suspicious frames in ensemble mode. The frames for which the aligner
  returned \<open>None\<close> are left out altogether: the number analysed is the number of frames
  with a face, and the verdict is the one of the video without those frames.
\<close>

theorem C7_counts_add_up:
  "process_video self (Inr frames_data) = Inr r \<longrightarrow>
     total_frames_analyzed r
       = length (filter (\<lambda>frame. face_of self frame \<noteq> None) frames_data)
   \<and> (length (models self) = 1 \<longrightarrow>
        suspicious_frames r = None
        \<and> fake_frames r + real_frames r = total_frames_analyzed r)
   \<and> (length (models self) \<noteq> 1 \<longrightarrow>
        (\<exists>s. suspicious_frames r = Some s
          \<and> fake_frames r + real_frames r + s = total_frames_analyzed r))
   \<and> process_video self (Inr (filter (\<lambda>frame. face_of self frame \<noteq> None) frames_data)) = Inr r"
proof
  assume pv: "process_video self (Inr frames_data) = Inr r"
  let ?kept = "filter (\<lambda>frame. face_of self frame \<noteq> None) frames_data"
  from pv obtain st where
    loop: "process_frames self initial_state frames_data = Inr st" and
    fin: "finish_video self st = Inr r"
    by (auto simp: process_video_def split: if_splits sum.splits)
  note inv = process_frames_counts [OF loop]
  note fld = finish_video_fields [OF fin]
  have init: "fake_count initial_state = 0" "real_count initial_state = 0"
    "suspicious_count initial_state = 0" "frame_results initial_state = []"
    by (simp_all add: initial_state_def)
  have total: "total_frames_analyzed r = length (scored_faces self frames_data)"
    using inv fld init by simp
  have sum: "fake_frames r + real_frames r + suspicious_count st = total_frames_analyzed r"
    using inv fld init by simp
  have single: "length (models self) = 1 \<Longrightarrow> suspicious_count st = 0"
    using inv init by simp
  have "scored_faces self frames_data \<noteq> []"
    using inv fld init by simp
  then have "?kept \<noteq> []"
    using length_scored_faces [of self frames_data] by auto
  then have again: "process_video self (Inr ?kept) = Inr r"
    using loop fin process_frames_filter [of self initial_state frames_data]
    by (simp add: process_video_def)
  show "total_frames_analyzed r = length ?kept
   \<and> (length (models self) = 1 \<longrightarrow>
        suspicious_frames r = None
        \<and> fake_frames r + real_frames r = total_frames_analyzed r)
   \<and> (length (models self) \<noteq> 1 \<longrightarrow>
        (\<exists>s. suspicious_frames r = Some s
          \<and> fake_frames r + real_frames r + s = total_frames_analyzed r))
   \<and> process_video self (Inr ?kept) = Inr r"
    using total sum single again fld length_scored_faces [of self frames_data]
    by auto
qed

subsection \<open>Ensemble mode\<close>

lemma frame_verdicts_Nil: "frame_verdicts self [] = []"
  by (simp add: frame_verdicts_def scored_faces_Nil)

lemma frame_verdicts_Cons:
  "frame_verdicts self (frame # frames_data) =
     (case face_of self frame of
        None \<Rightarrow> frame_verdicts self frames_data
      | Some face \<Rightarrow>
          (case calculate_ensemble_verdict (run_models self Float32 face) of
             None \<Rightarrow> frame_verdicts self frames_data
           | Some v \<Rightarrow> v # frame_verdicts self frames_data))"
  by (simp add: frame_verdicts_def scored_faces_Cons split: option.splits)

lemma map_filter_append:
  "List.map_filter f (xs @ ys) = List.map_filter f xs @ List.map_filter f ys"
  by (simp add: List.map_filter_def)

lemma calculate_ensemble_verdict_label:
  "calculate_ensemble_verdict results = Some v \<Longrightarrow>
   prediction v = ''FAKE'' \<or> prediction v = ''REAL''"
  by (auto simp: calculate_ensemble_verdict_def Let_def np_mean_def add_suspicious_flag_def
      max_by_confidence_pos first_vote_pos split: if_splits)

lemma count_frame_ensemble:
  assumes "length (models self) > 1" and "ENSEMBLE fr = Some v"
  shows "\<exists>st'. count_frame self st fr = Inr st'
    \<and> List.map_filter ENSEMBLE (frame_results st')
         = List.map_filter ENSEMBLE (frame_results st) @ [v]
    \<and> suspicious_count st' = suspicious_count st + (if suspicious v then 1 else 0)
    \<and> fake_count st'
         = fake_count st + (if \<not> suspicious v \<and> prediction v = ''FAKE'' then 1 else 0)
    \<and> real_count st'
         = real_count st + (if \<not> suspicious v \<and> prediction v \<noteq> ''FAKE'' then 1 else 0)"
  using assms by (simp add: count_frame_def Let_def map_filter_append)

lemma process_frames_ensemble:
  assumes m: "length (models self) > 1"
  shows "\<exists>st'. process_frames self st frames_data = Inr st'
    \<and> List.map_filter ENSEMBLE (frame_results st')
         = List.map_filter ENSEMBLE (frame_results st) @ frame_verdicts self frames_data
    \<and> suspicious_count st'
         = suspicious_count st + length (filter suspicious (frame_verdicts self frames_data))
    \<and> fake_count st'
         = fake_count st + length (filter (\<lambda>v. \<not> suspicious v \<and> prediction v = ''FAKE'')
             (frame_verdicts self frames_data))
    \<and> real_count st'
         = real_count st + length (filter (\<lambda>v. \<not> suspicious v \<and> prediction v \<noteq> ''FAKE'')
             (frame_verdicts self frames_data))"
proof (induction frames_data arbitrary: st)
  case Nil
  show ?case by (simp add: frame_verdicts_Nil)
next
  case (Cons frame frames_data)
  show ?case
  proof (cases "face_of self frame")
    case None
    with Cons.IH [of st] show ?thesis
      by (simp add: process_frame_def frame_verdicts_Cons)
  next
    case (Some face)
    from analyse_face_ensemble [OF m] obtain v
      where v: "ENSEMBLE (analyse_face self Float32 face) = Some v" by blast
    with m have cv: "calculate_ensemble_verdict (run_models self Float32 face) = Some v"
      by (simp add: analyse_face_def Let_def)
    from count_frame_ensemble [OF m v, of st] obtain st1 where
      st1: "count_frame self st (analyse_face self Float32 face) = Inr st1"
        "List.map_filter ENSEMBLE (frame_results st1)
           = List.map_filter ENSEMBLE (frame_results st) @ [v]"
        "suspicious_count st1 = suspicious_count st + (if suspicious v then 1 else 0)"
        "fake_count st1
           = fake_count st + (if \<not> suspicious v \<and> prediction v = ''FAKE'' then 1 else 0)"
        "real_count st1
           = real_count st + (if \<not> suspicious v \<and> prediction v \<noteq> ''FAKE'' then 1 else 0)"
      by blast
    from Cons.IH [of st1] obtain st' where
      st': "process_frames self st1 frames_data = Inr st'"
        "List.map_filter ENSEMBLE (frame_results st')
           = List.map_filter ENSEMBLE (frame_results st1) @ frame_verdicts self frames_data"
        "suspicious_count st'
           = suspicious_count st1 + length (filter suspicious (frame_verdicts self frames_data))"
        "fake_count st'
           = fake_count st1 + length (filter (\<lambda>v. \<not> suspicious v \<and> prediction v = ''FAKE'')
               (frame_verdicts self frames_data))"
        "real_count st'
           = real_count st1 + length (filter (\<lambda>v. \<not> suspicious v \<and> prediction v \<noteq> ''FAKE'')
               (frame_verdicts self frames_data))"
      by blast
    have "process_frames self st (frame # frames_data) = Inr st'"
      using Some st1(1) st'(1) by (simp add: process_frame_def)
    then show ?thesis
      using Some cv st1 st' by (simp add: frame_verdicts_Cons)
  qed
qed

lemma frame_verdicts_labels:
  "v \<in> set (frame_verdicts self frames_data) \<Longrightarrow>
   prediction v = ''FAKE'' \<or> prediction v = ''REAL''"
  by (induction frames_data)
    (auto simp: frame_verdicts_Nil frame_verdicts_Cons
      split: option.splits dest: calculate_ensemble_verdict_label)

lemma real_bucket:
  "filter (\<lambda>v. \<not> suspicious v \<and> prediction v \<noteq> ''FAKE'') (frame_verdicts self frames_data)
     = filter (\<lambda>v. \<not> suspicious v \<and> prediction v = ''REAL'') (frame_verdicts self frames_data)"
  by (rule filter_cong) (auto dest: frame_verdicts_labels)

lemma length_frame_verdicts:
  assumes "length (models self) > 1"
  shows "length (frame_verdicts self frames_data) = length (scored_faces self frames_data)"
proof (induction frames_data)
  case Nil
  show ?case by (simp add: frame_verdicts_Nil scored_faces_Nil)
next
  case (Cons frame frames_data)
  show ?case
  proof (cases "face_of self frame")
    case None
    with Cons show ?thesis by (simp add: frame_verdicts_Cons scored_faces_Cons)
  next
    case (Some face)
    from analyse_face_ensemble [OF assms] obtain v
      where "ENSEMBLE (analyse_face self Float32 face) = Some v" by blast
    with assms have "calculate_ensemble_verdict (run_models self Float32 face) = Some v"
      by (simp add: analyse_face_def Let_def)
    with Some Cons show ?thesis by (simp add: frame_verdicts_Cons scored_faces_Cons)
  qed
qed

text \<open>
  Claim C5. In ensemble mode, with \<open>s\<close>, \<open>f\<close> and \<open>r\<close> the numbers of suspicious, FAKE
  and REAL per-frame ensemble verdicts of the scored frames, the video verdict is
  SUSPICIOUS when \<open>s > f\<close> and \<open>s > r\<close>, otherwise FAKE when \<open>f > r\<close>, otherwise REAL. Its
  confidence is the mean confidence of the winning bucket, the suspicious bucket being
  the frames flagged suspicious, and the mean of an empty bucket is 0. A video with a
  scored frame always gets a verdict.
\<close>

theorem C5_ensemble_video_verdict:
  "length (models self) > 1 \<longrightarrow>
   (let verdicts = frame_verdicts self frames_data;
        suspicious_bucket = filter suspicious verdicts;
        fake_bucket = filter (\<lambda>v. \<not> suspicious v \<and> prediction v = ''FAKE'') verdicts;
        real_bucket = filter (\<lambda>v. \<not> suspicious v \<and> prediction v = ''REAL'') verdicts;
        s = length suspicious_bucket; f = length fake_bucket; r = length real_bucket;
        mean = (\<lambda>bucket. if bucket = [] then 0
                 else sum_list (map confidence bucket) / real (length bucket))
    in (verdicts \<noteq> [] \<longrightarrow> (\<exists>res. process_video self (Inr frames_data) = Inr res))
     \<and> (process_video self (Inr frames_data) = Inr res \<longrightarrow>
          suspicious_frames res = Some s \<and> fake_frames res = f \<and> real_frames res = r
          \<and> video_verdict res
              = (if s > f \<and> s > r then ''SUSPICIOUS'' else if f > r then ''FAKE'' else ''REAL'')
          \<and> video_confidence res
              = (if s > f \<and> s > r then mean suspicious_bucket
                 else if f > r then mean fake_bucket else mean real_bucket)))"
  (is "_ \<longrightarrow> ?concl")
proof
  assume m: "length (models self) > 1"
  from process_frames_ensemble [OF m, of initial_state frames_data] obtain st where
    st: "process_frames self initial_state frames_data = Inr st"
      "List.map_filter ENSEMBLE (frame_results st) = frame_verdicts self frames_data"
      "suspicious_count st = length (filter suspicious (frame_verdicts self frames_data))"
      "fake_count st = length (filter (\<lambda>v. \<not> suspicious v \<and> prediction v = ''FAKE'')
             (frame_verdicts self frames_data))"
      "real_count st = length (filter (\<lambda>v. \<not> suspicious v \<and> prediction v \<noteq> ''FAKE'')
             (frame_verdicts self frames_data))"
    by (auto simp: initial_state_def)
  have fr: "frame_results st = map (analyse_face self Float32) (scored_faces self frames_data)"
    using process_frames_counts [OF st(1)] by (simp add: initial_state_def)
  have ne: "frame_verdicts self frames_data \<noteq> [] \<Longrightarrow> frame_results st \<noteq> []"
    using length_frame_verdicts [OF m, of frames_data] fr by auto
  have pv: "frames_data \<noteq> [] \<Longrightarrow> process_video self (Inr frames_data) = finish_video self st"
    using st(1) by (simp add: process_video_def)
  have nonempty: "frame_verdicts self frames_data \<noteq> [] \<Longrightarrow> frames_data \<noteq> []"
    by (auto simp: frame_verdicts_Nil)
  have ex: "frame_verdicts self frames_data \<noteq> [] \<Longrightarrow>
      \<exists>res. process_video self (Inr frames_data) = Inr res"
    using pv nonempty ne m by (simp add: finish_video_def Let_def)
  have val: "process_video self (Inr frames_data) = Inr res \<Longrightarrow>
      suspicious_frames res = Some (suspicious_count st)
      \<and> fake_frames res = fake_count st \<and> real_frames res = real_count st
      \<and> video_verdict res
          = (if suspicious_count st > fake_count st \<and> suspicious_count st > real_count st
             then ''SUSPICIOUS'' else if fake_count st > real_count st then ''FAKE'' else ''REAL'')
      \<and> video_confidence res
          = (if suspicious_count st > fake_count st \<and> suspicious_count st > real_count st
             then mean_or_zero (map confidence (filter suspicious (frame_verdicts self frames_data)))
             else if fake_count st > real_count st
             then mean_or_zero (map confidence
               (filter (\<lambda>v. \<not> suspicious v \<and> prediction v = ''FAKE'')
                 (frame_verdicts self frames_data)))
             else mean_or_zero (map confidence
               (filter (\<lambda>v. \<not> suspicious v \<and> prediction v \<noteq> ''FAKE'')
                 (frame_verdicts self frames_data))))"
  proof -
    assume a: "process_video self (Inr frames_data) = Inr res"
    then have "frames_data \<noteq> []" by (auto simp: process_video_def)
    with a pv have "finish_video self st = Inr res" by simp
    then show ?thesis
      using m st(2) by (auto simp: finish_video_def Let_def split: if_splits)
  qed
  show ?concl
    using ex val st(3,4,5) real_bucket [of self frames_data]
    by (simp add: Let_def mean_or_zero_def list_mean_def)
qed

subsection \<open>Single-model mode\<close>

lemma analyse_face_single:
  assumes "models self = [(name, m)]"
  shows "analyse_face self dt face
    = \<lparr>entries = [(name, model_entry self dt True (m face))], ENSEMBLE = None\<rparr>"
  using assms by (simp add: analyse_face_def run_models_def)

lemma model_entry_label:
  "prediction (model_entry self dt True p) = ''FAKE''
   \<or> prediction (model_entry self dt True p) = ''REAL''"
  by (simp add: model_entry_def apply_confidence_threshold_def pred_label_def Let_def)

lemma count_frame_single:
  assumes "models self = [(name, m)]"
  shows "\<exists>st'. count_frame self st \<lparr>entries = [(name, e)], ENSEMBLE = None\<rparr> = Inr st'
    \<and> fake_count st' = fake_count st + (if prediction e = ''FAKE'' then 1 else 0)
    \<and> real_count st' = real_count st + (if prediction e \<noteq> ''FAKE'' then 1 else 0)"
  using assms by (simp add: count_frame_def Let_def)

lemma process_frames_single:
  assumes m: "models self = [(name, m)]"
  shows "\<exists>st'. process_frames self st frames_data = Inr st'
    \<and> fake_count st' = fake_count st
        + length (filter (\<lambda>e. prediction e = ''FAKE'')
            (map (\<lambda>face. model_entry self Float32 True (m face)) (scored_faces self frames_data)))
    \<and> real_count st' = real_count st
        + length (filter (\<lambda>e. prediction e \<noteq> ''FAKE'')
            (map (\<lambda>face. model_entry self Float32 True (m face)) (scored_faces self frames_data)))"
proof (induction frames_data arbitrary: st)
  case Nil
  show ?case by (simp add: scored_faces_Nil)
next
  case (Cons frame frames_data)
  show ?case
  proof (cases "face_of self frame")
    case None
    with Cons.IH [of st] show ?thesis
      by (simp add: process_frame_def scored_faces_Cons)
  next
    case (Some face)
    from count_frame_single [OF m, of st "model_entry self Float32 True (m face)"] obtain st1 where
      st1: "count_frame self st (analyse_face self Float32 face) = Inr st1"
        "fake_count st1 = fake_count st
           + (if prediction (model_entry self Float32 True (m face)) = ''FAKE'' then 1 else 0)"
        "real_count st1 = real_count st
           + (if prediction (model_entry self Float32 True (m face)) \<noteq> ''FAKE'' then 1 else 0)"
      using analyse_face_single [OF m] by auto
    from Cons.IH [of st1] obtain st' where
      st': "process_frames self st1 frames_data = Inr st'"
        "fake_count st' = fake_count st1
          + length (filter (\<lambda>e. prediction e = ''FAKE'')
              (map (\<lambda>face. model_entry self Float32 True (m face)) (scored_faces self frames_data)))"
        "real_count st' = real_count st1
          + length (filter (\<lambda>e. prediction e \<noteq> ''FAKE'')
              (map (\<lambda>face. model_entry self Float32 True (m face)) (scored_faces self frames_data)))"
      by blast
    have "process_frames self st (frame # frames_data) = Inr st'"
      using Some st1(1) st'(1) by (simp add: process_frame_def)
    then show ?thesis
      using Some st1 st' by (simp add: scored_faces_Cons)
  qed
qed

lemma entries_of_single:
  assumes "models self = [(name, m)]"
  shows "entries_of name (map (analyse_face self Float32) faces)
    = Some (map (\<lambda>face. model_entry self Float32 True (m face)) faces)"
  by (induction faces) (simp_all add: analyse_face_single [OF assms])

lemma not_fake_is_real:
  "filter (\<lambda>e. prediction e \<noteq> ''FAKE'') (map (\<lambda>face. model_entry self Float32 True (m face)) faces)
   = filter (\<lambda>e. prediction e = ''REAL'') (map (\<lambda>face. model_entry self Float32 True (m face)) faces)"
  by (rule filter_cong) (use model_entry_label in auto)

lemma sum_list_constant:
  "(\<And>x. x \<in> set xs \<Longrightarrow> g x = c) \<Longrightarrow> sum_list (map g xs) = c * real (length xs)"
  by (induction xs) (simp_all add: algebra_simps)

lemma single_video_verdict:
  assumes m: "models self = [(name, m)]"
    and ne: "scored_faces self frames_data \<noteq> []"
  defines "adjusted \<equiv> map (\<lambda>face. model_entry self Float32 True (m face)) (scored_faces self frames_data)"
  shows "\<exists>res. process_video self (Inr frames_data) = Inr res
    \<and> video_verdict res
        = (if length (filter (\<lambda>e. prediction e = ''FAKE'') adjusted)
              > length (filter (\<lambda>e. prediction e = ''REAL'') adjusted)
           then ''FAKE'' else ''REAL'')
    \<and> fake_frames res = length (filter (\<lambda>e. prediction e = ''FAKE'') adjusted)
    \<and> real_frames res = length (filter (\<lambda>e. prediction e = ''REAL'') adjusted)
    \<and> video_confidence res
        = mean_or_zero (map confidence (filter (\<lambda>e. prediction e = video_verdict res) adjusted))"
proof -
  from process_frames_single [OF m, of initial_state frames_data] obtain st where
    st: "process_frames self initial_state frames_data = Inr st"
      "fake_count st = length (filter (\<lambda>e. prediction e = ''FAKE'') adjusted)"
      "real_count st = length (filter (\<lambda>e. prediction e \<noteq> ''FAKE'') adjusted)"
    by (auto simp: initial_state_def adjusted_def)
  have fr: "frame_results st = map (analyse_face self Float32) (scored_faces self frames_data)"
    using process_frames_counts [OF st(1)] by (simp add: initial_state_def)
  have es: "entries_of name (frame_results st) = Some adjusted"
    unfolding fr adjusted_def by (rule entries_of_single [OF m])
  have real: "real_count st = length (filter (\<lambda>e. prediction e = ''REAL'') adjusted)"
    using st(3) not_fake_is_real [of self m "scored_faces self frames_data"]
    by (simp add: adjusted_def)
  have "frames_data \<noteq> []" using ne by (auto simp: scored_faces_Nil)
  then have pv: "process_video self (Inr frames_data) = finish_video self st"
    using st(1) by (simp add: process_video_def)
  have "frame_results st \<noteq> []" using fr ne by simp
  then show ?thesis
    unfolding pv using m es st(2) real
    by (simp add: finish_video_def Let_def)
qed

lemma adjusted_split:
  "length (filter (\<lambda>e. prediction e = ''FAKE'') (map (\<lambda>face. model_entry self Float32 True (m face)) faces))
   + length (filter (\<lambda>e. prediction e = ''REAL'') (map (\<lambda>face. model_entry self Float32 True (m face)) faces))
   = length faces"
  using sum_length_filter_compl [of "\<lambda>e. prediction e = ''FAKE''"
      "map (\<lambda>face. model_entry self Float32 True (m face)) faces"]
    not_fake_is_real [of self m faces]
  by simp

text \<open>
  Claim C6. In single-model mode with at least one scored frame the video verdict is
  FAKE when the FAKE frames outnumber the REAL frames and REAL otherwise (so a tie is
  REAL), and its confidence is the mean of the adjusted confidences of the frames that
  carry the winning label. Ten scored frames, six FAKE at confidence 0.8 and four REAL
  at confidence 0.6, give FAKE with confidence 0.8, six fake and four real frames.
\<close>

theorem C6_single_video_verdict:
  "models self = [(name, m)] \<longrightarrow>
   (let adjusted = map (\<lambda>face. model_entry self Float32 True (m face)) (scored_faces self frames_data);
        f = length (filter (\<lambda>e. prediction e = ''FAKE'') adjusted);
        r = length (filter (\<lambda>e. prediction e = ''REAL'') adjusted)
    in (adjusted \<noteq> [] \<longrightarrow>
         (\<exists>res. process_video self (Inr frames_data) = Inr res
            \<and> video_verdict res = (if f > r then ''FAKE'' else ''REAL'')
            \<and> fake_frames res = f \<and> real_frames res = r
            \<and> filter (\<lambda>e. prediction e = video_verdict res) adjusted \<noteq> []
            \<and> video_confidence res
                = sum_list (map confidence (filter (\<lambda>e. prediction e = video_verdict res) adjusted))
                  / real (length (filter (\<lambda>e. prediction e = video_verdict res) adjusted))))
     \<and> ((\<forall>e \<in> set adjusted. prediction e = ''FAKE'' \<and> confidence e = 0.8
                              \<or> prediction e = ''REAL'' \<and> confidence e = 0.6)
         \<and> f = 6 \<and> r = 4 \<longrightarrow>
         (\<exists>res. process_video self (Inr frames_data) = Inr res
            \<and> video_verdict res = ''FAKE'' \<and> video_confidence res = 0.8
            \<and> fake_frames res = 6 \<and> real_frames res = 4)))"
  (is "_ \<longrightarrow> ?concl")
proof
  assume m: "models self = [(name, m)]"
  define adjusted where
    "adjusted = map (\<lambda>face. model_entry self Float32 True (m face)) (scored_faces self frames_data)"
  define f where "f = length (filter (\<lambda>e. prediction e = ''FAKE'') adjusted)"
  define r where "r = length (filter (\<lambda>e. prediction e = ''REAL'') adjusted)"
  have split: "f + r = length adjusted"
    unfolding f_def r_def adjusted_def using adjusted_split [of self m] by simp
  have general: "\<exists>res. process_video self (Inr frames_data) = Inr res
            \<and> video_verdict res = (if f > r then ''FAKE'' else ''REAL'')
            \<and> fake_frames res = f \<and> real_frames res = r
            \<and> filter (\<lambda>e. prediction e = video_verdict res) adjusted \<noteq> []
            \<and> video_confidence res
                = sum_list (map confidence (filter (\<lambda>e. prediction e = video_verdict res) adjusted))
                  / real (length (filter (\<lambda>e. prediction e = video_verdict res) adjusted))"
    if ne: "adjusted \<noteq> []"
  proof -
    from ne have "scored_faces self frames_data \<noteq> []" by (simp add: adjusted_def)
    from single_video_verdict [OF m this] obtain res where
      res: "process_video self (Inr frames_data) = Inr res"
        "video_verdict res = (if f > r then ''FAKE'' else ''REAL'')"
        "fake_frames res = f" "real_frames res = r"
        "video_confidence res
          = mean_or_zero (map confidence (filter (\<lambda>e. prediction e = video_verdict res) adjusted))"
      unfolding f_def r_def adjusted_def by blast
    have "length (filter (\<lambda>e. prediction e = video_verdict res) adjusted) > 0"
    proof (cases "f > r")
      case True
      then have "f > 0" by simp
      with True show ?thesis using res(2) by (simp add: f_def)
    next
      case False
      with split ne have "r > 0" by (cases adjusted) auto
      with False show ?thesis using res(2) by (simp add: r_def)
    qed
    then have w: "filter (\<lambda>e. prediction e = video_verdict res) adjusted \<noteq> []" by auto
    with res(5) have "video_confidence res
        = sum_list (map confidence (filter (\<lambda>e. prediction e = video_verdict res) adjusted))
          / real (length (filter (\<lambda>e. prediction e = video_verdict res) adjusted))"
      by (simp add: mean_or_zero_def list_mean_def)
    with res w show ?thesis by blast
  qed
  have scenario: "\<exists>res. process_video self (Inr frames_data) = Inr res
            \<and> video_verdict res = ''FAKE'' \<and> video_confidence res = 0.8
            \<and> fake_frames res = 6 \<and> real_frames res = 4"
    if all: "\<forall>e \<in> set adjusted. prediction e = ''FAKE'' \<and> confidence e = 0.8
                              \<or> prediction e = ''REAL'' \<and> confidence e = 0.6"
      and f6: "f = 6" and r4: "r = 4"
  proof -
    from split f6 r4 have "adjusted \<noteq> []" by auto
    from general [OF this] obtain res where
      res: "process_video self (Inr frames_data) = Inr res"
        "video_verdict res = (if f > r then ''FAKE'' else ''REAL'')"
        "fake_frames res = f" "real_frames res = r"
        "video_confidence res
          = sum_list (map confidence (filter (\<lambda>e. prediction e = video_verdict res) adjusted))
            / real (length (filter (\<lambda>e. prediction e = video_verdict res) adjusted))"
      by blast
    have v: "video_verdict res = ''FAKE''" using res(2) f6 r4 by simp
    have "sum_list (map confidence (filter (\<lambda>e. prediction e = ''FAKE'') adjusted))
        = 0.8 * real (length (filter (\<lambda>e. prediction e = ''FAKE'') adjusted))"
      by (rule sum_list_constant) (use all in auto)
    then have "video_confidence res = 0.8"
      using res(5) v f6 by (simp add: f_def)
    with res v f6 r4 show ?thesis by auto
  qed
  show ?concl
    unfolding Let_def
    using general scenario
    unfolding f_def r_def adjusted_def
    by blast
qed

theorem C7_counts_add_up_witness:
  "\<exists>r. process_video
         \<lparr>FAKE_CONFIDENCE_THRESHOLD = 0.70, REAL_CONFIDENCE_BOOST = 0.25,
          models = [(''Custom'', \<lambda>x::real. x)], face_detector = True,
          landmark_predictor = False,
          detect_and_align = (\<lambda>x. if x < 0 then None else Some x)\<rparr>
         (Inr [1, - 1, 0]) = Inr r
       \<and> total_frames_analyzed r = 2 \<and> suspicious_frames r = None
       \<and> fake_frames r + real_frames r = 2"
  (is "\<exists>r. process_video ?srv (Inr ?frames) = Inr r \<and> _")
proof -
  have faces: "scored_faces ?srv ?frames = [1, 0]"
    by (simp add: scored_faces_def face_of_def extract_aligned_face_def)
  have "models ?srv = [(''Custom'', \<lambda>x. x)]" by simp
  from single_video_verdict [OF this, of ?frames] faces
  obtain r where r: "process_video ?srv (Inr ?frames) = Inr r" by auto
  have kept: "length (filter (\<lambda>frame. face_of ?srv frame \<noteq> None) ?frames) = 2"
    by (simp add: face_of_def extract_aligned_face_def)
  from C7_counts_add_up [of ?srv ?frames r] r kept
  have "total_frames_analyzed r = 2 \<and> suspicious_frames r = None
       \<and> fake_frames r + real_frames r = 2"
    by simp
  with r show ?thesis by blast
qed

theorem C5_ensemble_video_verdict_witness:
  "\<exists>res. process_video
         \<lparr>FAKE_CONFIDENCE_THRESHOLD = 0.70, REAL_CONFIDENCE_BOOST = 0.25,
          models = [(''FaceForensics'', \<lambda>x::real. x), (''SDv14'', \<lambda>x. x),
                    (''Chameleon'', \<lambda>x. x)],
          face_detector = True, landmark_predictor = False,
          detect_and_align = (\<lambda>x. if x < 0 then None else Some x)\<rparr>
         (Inr [0.9, - 1, 0.6, 0.55]) = Inr res
       \<and> video_verdict res = ''SUSPICIOUS'' \<and> video_confidence res = 0.575
       \<and> suspicious_frames res = Some 2 \<and> fake_frames res = 1 \<and> real_frames res = 0"
  (is "\<exists>res. process_video ?srv (Inr ?frames) = Inr res \<and> _")
proof -
  have v: "frame_verdicts ?srv ?frames =
      [\<lparr>prob = 0.9, confidence = 0.9, prediction = ''FAKE'',
        rule = ''Rule 1: All models predict FAKE'', suspicious = False\<rparr>,
       \<lparr>prob = 0.6, confidence = 0.6, prediction = ''FAKE'',
        rule = ''Rule 1: All models predict FAKE'', suspicious = True\<rparr>,
       \<lparr>prob = 0.55, confidence = 0.55, prediction = ''FAKE'',
        rule = ''Rule 1: All models predict FAKE'', suspicious = True\<rparr>]"
    by (simp add: frame_verdicts_def scored_faces_def face_of_def extract_aligned_face_def
        run_models_def model_entry_def pred_label_def raw_confidence_def
        calculate_ensemble_verdict_def fake_predictions_def real_predictions_def as_vote_def
        add_suspicious_flag_def Let_def)
  have m: "length (models ?srv) > 1" by simp
  from C5_ensemble_video_verdict [of ?srv ?frames] m v
  obtain res where res: "process_video ?srv (Inr ?frames) = Inr res"
    by (auto simp: Let_def)
  from C5_ensemble_video_verdict [of ?srv ?frames res] m v res
  have "video_verdict res = ''SUSPICIOUS'' \<and> video_confidence res = 0.575
       \<and> suspicious_frames res = Some 2 \<and> fake_frames res = 1 \<and> real_frames res = 0"
    by (simp add: Let_def)
  with res show ?thesis by blast
qed

theorem C6_single_video_verdict_witness:
  "\<exists>res. process_video
         \<lparr>FAKE_CONFIDENCE_THRESHOLD = 0.70, REAL_CONFIDENCE_BOOST = 0.05,
          models = [(''Custom'', \<lambda>x::real. x)], face_detector = False,
          landmark_predictor = False, detect_and_align = (\<lambda>x. None)\<rparr>
         (Inr [0.8, 0.45, 0.8, 0.45, 0.8, 0.8, 0.45, 0.8, 0.45, 0.8]) = Inr res
       \<and> video_verdict res = ''FAKE'' \<and> video_confidence res = 0.8
       \<and> fake_frames res = 6 \<and> real_frames res = 4"
  (is "\<exists>res. process_video ?srv (Inr ?frames) = Inr res \<and> _")
proof -
  have faces: "scored_faces ?srv ?frames = ?frames"
    by (simp add: scored_faces_def face_of_def)
  have fake: "prediction (model_entry ?srv Float32 True 0.8) = ''FAKE''"
    "confidence (model_entry ?srv Float32 True 0.8) = 0.8"
    by (simp_all add: model_entry_def pred_label_def raw_confidence_def
        apply_confidence_threshold_def to_float32_seven_tenths)
  have real: "prediction (model_entry ?srv Float32 True 0.45) = ''REAL''"
    "confidence (model_entry ?srv Float32 True 0.45) = 0.6"
    by (simp_all add: model_entry_def pred_label_def raw_confidence_def
        apply_confidence_threshold_def to_float32_seven_tenths)
  have hyp: "(\<forall>e \<in> set (map (\<lambda>face. model_entry ?srv Float32 True face) (scored_faces ?srv ?frames)).
          prediction e = ''FAKE'' \<and> confidence e = 0.8
          \<or> prediction e = ''REAL'' \<and> confidence e = 0.6)
      \<and> length (filter (\<lambda>e. prediction e = ''FAKE'')
           (map (\<lambda>face. model_entry ?srv Float32 True face) (scored_faces ?srv ?frames))) = 6
      \<and> length (filter (\<lambda>e. prediction e = ''REAL'')
           (map (\<lambda>face. model_entry ?srv Float32 True face) (scored_faces ?srv ?frames))) = 4"
    using fake real unfolding faces by simp
  have m: "models ?srv = [(''Custom'', \<lambda>x. x)]" by simp
  note t = C6_single_video_verdict [of ?srv "''Custom''" "\<lambda>x. x" ?frames, unfolded Let_def]
  from t [THEN mp, OF m, THEN conjunct2, THEN mp, OF hyp] show ?thesis .
qed

section \<open>Properties of the two modes\<close>

lemma raw_confidence_max: "raw_confidence p = max p (1 - p)"
  by (auto simp: raw_confidence_def max_def)

lemma pred_label_if: "pred_label p = (if p \<ge> 0.5 then ''FAKE'' else ''REAL'')"
  by (simp add: pred_label_def)

lemma run_models_ensemble:
  assumes "length (models self) \<noteq> 1"
  shows "run_models self dt face =
     map (\<lambda>m. (fst m, \<lparr>prob = snd m face,
                         confidence = max (snd m face) (1 - snd m face),
                         prediction = (if snd m face \<ge> 0.5 then ''FAKE'' else ''REAL''),
                         single_info = None\<rparr>)) (models self)"
  using assms
  by (auto simp: run_models_def model_entry_def pred_label_def raw_confidence_def max_def)

lemma run_models_config:
  assumes "length (models self) \<noteq> 1"
  shows "run_models (self\<lparr>FAKE_CONFIDENCE_THRESHOLD := T, REAL_CONFIDENCE_BOOST := B\<rparr>) dt face
    = run_models self dt' face"
  using assms by (simp add: run_models_def model_entry_def)

lemma process_image_analysed:
  "process_image self img_path img = Inr res \<Longrightarrow> \<exists>face. res = analyse_face self Float32 face"
  by (auto simp: process_image_def split: option.splits)

lemma infer_using_server_analysed:
  "infer_using_server self img_bgr = Inr res \<Longrightarrow> \<exists>face. res = analyse_face self Float64 face"
  by (auto simp: infer_using_server_def split: option.splits if_splits)

text \<open>
  Claim C3. With more than one model loaded, the entry of every model carries the raw
  label (FAKE iff the probability is at least 0.5) and the raw confidence
  \<open>max p (1 - p)\<close>, without conversion record; the ensemble verdict is computed from
  these entries; and no threshold \<open>T\<close> or boost \<open>B\<close>, nor the precision of the
  confidence, changes the outcome. This is the dictionary that \<^verbatim>\<open>process_image\<close> and
  \<^verbatim>\<open>infer_using_server\<close> return. With exactly one model the entry is the threshold and
  boost rule applied to the raw label and confidence, the threshold being compared in
  the precision of the confidence, and there is no ensemble verdict.
\<close>

theorem C3_ensemble_votes_are_raw:
  "(process_image self img_path img = Inr res \<longrightarrow>
      (\<exists>face. res = analyse_face self Float32 face))
   \<and> (infer_using_server self img_bgr = Inr res \<longrightarrow>
      (\<exists>face. res = analyse_face self Float64 face))
   \<and> (length (models self) > 1 \<longrightarrow>
        entries (analyse_face self dt face)
          = map (\<lambda>m. (fst m, \<lparr>prob = snd m face,
                              confidence = max (snd m face) (1 - snd m face),
                              prediction = (if snd m face \<ge> 0.5 then ''FAKE'' else ''REAL''),
                              single_info = None\<rparr>)) (models self)
        \<and> ENSEMBLE (analyse_face self dt face)
          = calculate_ensemble_verdict (entries (analyse_face self dt face))
        \<and> ENSEMBLE (analyse_face self dt face) \<noteq> None
        \<and> analyse_face (self\<lparr>FAKE_CONFIDENCE_THRESHOLD := T, REAL_CONFIDENCE_BOOST := B\<rparr>) dt face
          = analyse_face self dt' face)
   \<and> (models self = [(name, m)] \<longrightarrow>
        ENSEMBLE (analyse_face self dt face) = None
        \<and> (\<exists>e. entries (analyse_face self dt face) = [(name, e)]
             \<and> (prediction e, confidence e, entry_was_converted e)
                 = apply_confidence_threshold
                     (self\<lparr>FAKE_CONFIDENCE_THRESHOLD :=
                             compared_threshold dt (FAKE_CONFIDENCE_THRESHOLD self)\<rparr>)
                     (m face)
                     (if m face \<ge> 0.5 then ''FAKE'' else ''REAL'')
                     (max (m face) (1 - m face))))"
proof (intro conjI impI)
  assume "process_image self img_path img = Inr res"
  then show "\<exists>face. res = analyse_face self Float32 face" by (rule process_image_analysed)
next
  assume "infer_using_server self img_bgr = Inr res"
  then show "\<exists>face. res = analyse_face self Float64 face"
    by (rule infer_using_server_analysed)
next
  assume m: "length (models self) > 1"
  then have ne: "length (models self) \<noteq> 1" by simp
  show "entries (analyse_face self dt face)
          = map (\<lambda>m. (fst m, \<lparr>prob = snd m face,
                              confidence = max (snd m face) (1 - snd m face),
                              prediction = (if snd m face \<ge> 0.5 then ''FAKE'' else ''REAL''),
                              single_info = None\<rparr>)) (models self)"
    using run_models_ensemble [OF ne] by (simp add: analyse_face_def Let_def)
  show "ENSEMBLE (analyse_face self dt face)
          = calculate_ensemble_verdict (entries (analyse_face self dt face))"
    using m by (simp add: analyse_face_def Let_def)
  show "ENSEMBLE (analyse_face self dt face) \<noteq> None"
    using analyse_face_ensemble [OF m, of dt face] by auto
  show "analyse_face (self\<lparr>FAKE_CONFIDENCE_THRESHOLD := T, REAL_CONFIDENCE_BOOST := B\<rparr>) dt face
          = analyse_face self dt' face"
    using m by (simp add: analyse_face_def Let_def run_models_config [OF ne, where dt' = dt'])
next
  assume s: "models self = [(name, m)]"
  show "ENSEMBLE (analyse_face self dt face) = None"
    by (simp add: analyse_face_single [OF s])
  have "\<exists>e. entries (analyse_face self dt face) = [(name, e)]
             \<and> (prediction e, confidence e, entry_was_converted e)
                 = apply_confidence_threshold
                     (self\<lparr>FAKE_CONFIDENCE_THRESHOLD :=
                             compared_threshold dt (FAKE_CONFIDENCE_THRESHOLD self)\<rparr>)
                     (m face)
                     (pred_label (m face)) (raw_confidence (m face))"
    by (simp add: analyse_face_single [OF s] model_entry_def entry_was_converted_def
        split: prod.splits)
  then show "\<exists>e. entries (analyse_face self dt face) = [(name, e)]
             \<and> (prediction e, confidence e, entry_was_converted e)
                 = apply_confidence_threshold
                     (self\<lparr>FAKE_CONFIDENCE_THRESHOLD :=
                             compared_threshold dt (FAKE_CONFIDENCE_THRESHOLD self)\<rparr>)
                     (m face)
                     (if m face \<ge> 0.5 then ''FAKE'' else ''REAL'')
                     (max (m face) (1 - m face))"
    unfolding pred_label_if raw_confidence_max .
qed

theorem C3_ensemble_votes_are_raw_witness:
  "\<exists>res. process_image
         \<lparr>FAKE_CONFIDENCE_THRESHOLD = 0.70, REAL_CONFIDENCE_BOOST = 0.25,
          models = [(''FaceForensics'', \<lambda>x::real. x), (''SDv14'', \<lambda>x. x),
                    (''Chameleon'', \<lambda>x. 1 - x)],
          face_detector = True, landmark_predictor = True,
          detect_and_align = (\<lambda>x. if x < 0 then None else Some x)\<rparr>
         ''face.jpg'' (Some 0.6) = Inr res
     \<and> infer_using_server
         \<lparr>FAKE_CONFIDENCE_THRESHOLD = 0.70, REAL_CONFIDENCE_BOOST = 0.25,
          models = [(''FaceForensics'', \<lambda>x::real. x), (''SDv14'', \<lambda>x. x),
                    (''Chameleon'', \<lambda>x. 1 - x)],
          face_detector = True, landmark_predictor = True,
          detect_and_align = (\<lambda>x. if x < 0 then None else Some x)\<rparr>
         0.6 = Inr res
     \<and> entries res
         = [(''FaceForensics'', \<lparr>prob = 0.6, confidence = 0.6, prediction = ''FAKE'',
              single_info = None\<rparr>),
            (''SDv14'', \<lparr>prob = 0.6, confidence = 0.6, prediction = ''FAKE'',
              single_info = None\<rparr>),
            (''Chameleon'', \<lparr>prob = 0.4, confidence = 0.6, prediction = ''REAL'',
              single_info = None\<rparr>)]
     \<and> ENSEMBLE res = calculate_ensemble_verdict (entries res)"
  (is "\<exists>res. process_image ?srv ?path (Some ?img) = Inr res \<and> _")
proof -
  have p: "process_image ?srv ?path (Some ?img) = Inr (analyse_face ?srv Float32 ?img)"
    by (simp add: process_image_def face_of_def extract_aligned_face_def)
  have i: "infer_using_server ?srv ?img = Inr (analyse_face ?srv Float64 ?img)"
    by (simp add: infer_using_server_def extract_aligned_face_def)
  have m: "length (models ?srv) > 1" by simp
  note c = C3_ensemble_votes_are_raw [where self = ?srv and dt = Float32 and dt' = Float64
      and face = ?img and T = "0.70" and B = "0.25",
      THEN conjunct2, THEN conjunct2, THEN conjunct1, THEN mp, OF m]
  have ent: "entries (analyse_face ?srv Float32 ?img)
         = [(''FaceForensics'', \<lparr>prob = 0.6, confidence = 0.6, prediction = ''FAKE'',
              single_info = None\<rparr>),
            (''SDv14'', \<lparr>prob = 0.6, confidence = 0.6, prediction = ''FAKE'',
              single_info = None\<rparr>),
            (''Chameleon'', \<lparr>prob = 0.4, confidence = 0.6, prediction = ''REAL'',
              single_info = None\<rparr>)]"
    using c [THEN conjunct1] by simp
  have ens: "ENSEMBLE (analyse_face ?srv Float32 ?img)
         = calculate_ensemble_verdict (entries (analyse_face ?srv Float32 ?img))"
    by (rule c [THEN conjunct2, THEN conjunct1])
  have i': "infer_using_server ?srv ?img = Inr (analyse_face ?srv Float32 ?img)"
    using i c [THEN conjunct2, THEN conjunct2, THEN conjunct2] by simp
  from p i' ent ens show ?thesis by blast
qed

section \<open>Properties of the streaming handler\<close>

lemma no_face_message: "contains ''no face'' (lower ''No face detected'')"
  by code_simp

lemma infer_using_server_no_face:
  assumes "face_detector self" and "landmark_predictor self"
    and "extract_aligned_face self img_bgr = None"
  shows "infer_using_server self img_bgr = Inl ''No face detected''"
  using assms by (simp add: infer_using_server_def)

lemma handle_message_state:
  "map_option fst (handle_message h st raw_msg) = map_option fst (handle_message h st' raw_msg)"
  by (simp add: handle_message_def Let_def
      split: option.splits sum.splits list.splits)

lemma handler_state:
  "handler h st msgs = handler h st' msgs"
proof (induction msgs arbitrary: st st')
  case Nil
  show ?case by simp
next
  case (Cons raw_msg rest)
  show ?case
  proof (cases "handle_message h st raw_msg")
    case None
    with handle_message_state [of h st raw_msg st']
    have "handle_message h st' raw_msg = None" by simp
    with None show ?thesis by simp
  next
    case (Some a)
    obtain resp st1 where a: "a = (resp, st1)" by (cases a)
    from Some a handle_message_state [of h st raw_msg st']
    obtain st2 where "handle_message h st' raw_msg = Some (resp, st2)"
      by (cases "handle_message h st' raw_msg") auto
    with Some a Cons.IH [of st1 st2] show ?thesis by simp
  qed
qed

text \<open>
  Without a landmark predictor the streaming path does not call the aligner: the whole
  image is classified.
\<close>

lemma infer_using_server_unaligned:
  assumes "\<not> (face_detector self \<and> landmark_predictor self)" and "models self \<noteq> []"
  shows "infer_using_server self img_bgr = Inr (analyse_face self Float64 img_bgr)"
  using assms by (auto simp: infer_using_server_def)

text \<open>
  Claim C9, as stated, fails when the face detector is loaded and the landmark predictor
  is not (the configuration the module sets up when the landmark file is missing): for
  a frame on which \<^verbatim>\<open>extract_aligned_face\<close> returns \<open>None\<close>, \<^verbatim>\<open>infer_using_server\<close> does
  not call the aligner, the whole image is classified, and the response is an ordinary
  result, here FAKE with confidence 0.9, not \<^verbatim>\<open>NO_FACE\<close>.
\<close>

theorem C9_no_face_counterexample:
  "extract_aligned_face
     \<lparr>FAKE_CONFIDENCE_THRESHOLD = 0.70, REAL_CONFIDENCE_BOOST = 0.25,
      models = [(''Custom'', \<lambda>face::string. 0.9)], face_detector = True,
      landmark_predictor = False, detect_and_align = (\<lambda>face. None)\<rparr>
     ''wall'' = None
   \<and> map (\<lambda>r. (r_type r, r_prediction r, r_confidence r))
       (handler
          \<lparr>AUTH_TOKEN = [], b64_to_bgr_img = Inr,
           server_instance =
             \<lparr>FAKE_CONFIDENCE_THRESHOLD = 0.70, REAL_CONFIDENCE_BOOST = 0.25,
              models = [(''Custom'', \<lambda>face::string. 0.9)], face_detector = True,
              landmark_predictor = False, detect_and_align = (\<lambda>face. None)\<rparr>\<rparr>
          \<lparr>frame_count = 0, client_frame_count = 0\<rparr>
          [Some \<lparr>m_type = Some ''frame'', m_token = None, m_id = Some ''a'',
                 m_ts = Some 1, m_frameB64 = Some ''wall''\<rparr>])
     = [(''result'', Some ''FAKE'', Some 0.9)]"
  by (simp add: extract_aligned_face_def handle_message_def infer_using_server_def
      analyse_face_def run_models_def model_entry_def pred_label_def raw_confidence_def
      apply_confidence_threshold_def Let_def)

text \<open>
  Claim C9, amended. When the detector and the landmark predictor are both loaded, so
  that the streaming path runs the aligner, a frame message that passes the token
  check and decodes, and for which the aligner returns \<open>None\<close>, is answered by a
  message of type \<^verbatim>\<open>result\<close> with prediction \<^verbatim>\<open>NO_FACE\<close>, confidence 0 and no model
  output. The answer is the same whatever models are loaded, so no inference enters
  it, and the handler goes on with the remaining messages, which get the responses
  they would get without the faceless frame before them.
\<close>

theorem C9_no_face_result:
  "face_detector (server_instance h) \<and> landmark_predictor (server_instance h)
   \<and> (AUTH_TOKEN h = [] \<or> m_token msg = Some (AUTH_TOKEN h))
   \<and> m_type msg = Some ''frame'' \<and> m_frameB64 msg = Some b \<and> b \<noteq> []
   \<and> b64_to_bgr_img h b = Inr img_bgr
   \<and> extract_aligned_face (server_instance h) img_bgr = None
   \<longrightarrow>
   (let resp = \<lparr>r_type = ''result'', r_id = m_id msg, r_ts = m_ts msg,
                 r_prediction = Some ''NO_FACE'', r_confidence = Some 0,
                 r_error = Some ''No face detected'', r_models = None\<rparr>;
        st' = st\<lparr>frame_count := frame_count st + 1,
                 client_frame_count := client_frame_count st + 1\<rparr>
    in infer_using_server (server_instance h) img_bgr = Inl ''No face detected''
     \<and> handle_message h st (Some msg) = Some (resp, st')
     \<and> handle_message (h\<lparr>server_instance := (server_instance h)\<lparr>models := ms\<rparr>\<rparr>) st (Some msg)
         = Some (resp, st')
     \<and> handler h st (Some msg # rest) = resp # handler h st' rest
     \<and> handler h st (Some msg # rest) = resp # handler h st rest)"
proof
  assume a: "face_detector (server_instance h) \<and> landmark_predictor (server_instance h)
   \<and> (AUTH_TOKEN h = [] \<or> m_token msg = Some (AUTH_TOKEN h))
   \<and> m_type msg = Some ''frame'' \<and> m_frameB64 msg = Some b \<and> b \<noteq> []
   \<and> b64_to_bgr_img h b = Inr img_bgr
   \<and> extract_aligned_face (server_instance h) img_bgr = None"
  define resp where "resp = \<lparr>r_type = ''result'', r_id = m_id msg, r_ts = m_ts msg,
                 r_prediction = Some ''NO_FACE'', r_confidence = Some 0,
                 r_error = Some ''No face detected'', r_models = None\<rparr>"
  define st' where "st' = st\<lparr>frame_count := frame_count st + 1,
                 client_frame_count := client_frame_count st + 1\<rparr>"
  have i: "infer_using_server (server_instance h) img_bgr = Inl ''No face detected''"
    using a by (simp add: infer_using_server_no_face)
  have hm: "handle_message h st (Some msg) = Some (resp, st')"
    using a i no_face_message by (auto simp: handle_message_def Let_def resp_def st'_def)
  have "extract_aligned_face ((server_instance h)\<lparr>models := ms\<rparr>) img_bgr = None"
    using a by (auto simp: extract_aligned_face_def)
  then have "infer_using_server ((server_instance h)\<lparr>models := ms\<rparr>) img_bgr
      = Inl ''No face detected''"
    using a by (simp add: infer_using_server_no_face)
  then have hm': "handle_message (h\<lparr>server_instance := (server_instance h)\<lparr>models := ms\<rparr>\<rparr>)
      st (Some msg) = Some (resp, st')"
    using a no_face_message by (auto simp: handle_message_def Let_def resp_def st'_def)
  have h1: "handler h st (Some msg # rest) = resp # handler h st' rest"
    using hm by simp
  have h2: "handler h st (Some msg # rest) = resp # handler h st rest"
    using h1 handler_state [of h st' rest st] by simp
  show "let resp = \<lparr>r_type = ''result'', r_id = m_id msg, r_ts = m_ts msg,
                 r_prediction = Some ''NO_FACE'', r_confidence = Some 0,
                 r_error = Some ''No face detected'', r_models = None\<rparr>;
        st' = st\<lparr>frame_count := frame_count st + 1,
                 client_frame_count := client_frame_count st + 1\<rparr>
    in infer_using_server (server_instance h) img_bgr = Inl ''No face detected''
     \<and> handle_message h st (Some msg) = Some (resp, st')
     \<and> handle_message (h\<lparr>server_instance := (server_instance h)\<lparr>models := ms\<rparr>\<rparr>) st (Some msg)
         = Some (resp, st')
     \<and> handler h st (Some msg # rest) = resp # handler h st' rest
     \<and> handler h st (Some msg # rest) = resp # handler h st rest"
    unfolding Let_def using i hm hm' h1 h2 unfolding resp_def st'_def by blast
qed


theorem C9_no_face_result_witness:
  "map r_prediction
     (handler
        \<lparr>AUTH_TOKEN = [],
         b64_to_bgr_img = (\<lambda>s. if s = ''wall'' then Inr (- 1)
                              else if s = ''face'' then Inr 1 else Inl ''bad data''),
         server_instance =
           \<lparr>FAKE_CONFIDENCE_THRESHOLD = 0.70, REAL_CONFIDENCE_BOOST = 0.25,
            models = [(''Custom'', \<lambda>x::real. x)], face_detector = True,
            landmark_predictor = True,
            detect_and_align = (\<lambda>x. if x < 0 then None else Some x)\<rparr>\<rparr>
        \<lparr>frame_count = 0, client_frame_count = 0\<rparr>
        [Some \<lparr>m_type = Some ''frame'', m_token = None, m_id = Some ''a'', m_ts = Some 1,
               m_frameB64 = Some ''wall''\<rparr>,
         Some \<lparr>m_type = Some ''frame'', m_token = None, m_id = Some ''b'', m_ts = Some 2,
               m_frameB64 = Some ''face''\<rparr>])
   = [Some ''NO_FACE'', Some ''FAKE'']
   \<and> map r_type
     (handler
        \<lparr>AUTH_TOKEN = [],
         b64_to_bgr_img = (\<lambda>s. if s = ''wall'' then Inr (- 1)
                              else if s = ''face'' then Inr 1 else Inl ''bad data''),
         server_instance =
           \<lparr>FAKE_CONFIDENCE_THRESHOLD = 0.70, REAL_CONFIDENCE_BOOST = 0.25,
            models = [(''Custom'', \<lambda>x::real. x)], face_detector = True,
            landmark_predictor = True,
            detect_and_align = (\<lambda>x. if x < 0 then None else Some x)\<rparr>\<rparr>
        \<lparr>frame_count = 0, client_frame_count = 0\<rparr>
        [Some \<lparr>m_type = Some ''frame'', m_token = None, m_id = Some ''a'', m_ts = Some 1,
               m_frameB64 = Some ''wall''\<rparr>,
         Some \<lparr>m_type = Some ''frame'', m_token = None, m_id = Some ''b'', m_ts = Some 2,
               m_frameB64 = Some ''face''\<rparr>])
   = [''result'', ''result'']"
  (is "map r_prediction (handler ?h ?st [Some ?m1, Some ?m2]) = _ \<and> _")
proof -
  have hyp: "face_detector (server_instance ?h) \<and> landmark_predictor (server_instance ?h)
   \<and> (AUTH_TOKEN ?h = [] \<or> m_token ?m1 = Some (AUTH_TOKEN ?h))
   \<and> m_type ?m1 = Some ''frame'' \<and> m_frameB64 ?m1 = Some ''wall'' \<and> ''wall'' \<noteq> []
   \<and> b64_to_bgr_img ?h ''wall'' = Inr (- 1)
   \<and> extract_aligned_face (server_instance ?h) (- 1) = None"
    by (simp add: extract_aligned_face_def)
  note t = C9_no_face_result [of ?h ?m1 "''wall''" "- 1" ?st _ "[Some ?m2]",
      unfolded Let_def, THEN mp, OF hyp]
  have first: "handler ?h ?st [Some ?m1, Some ?m2]
      = \<lparr>r_type = ''result'', r_id = m_id ?m1, r_ts = m_ts ?m1,
          r_prediction = Some ''NO_FACE'', r_confidence = Some 0,
          r_error = Some ''No face detected'', r_models = None\<rparr>
        # handler ?h ?st [Some ?m2]"
    using t by blast
  have second: "map r_prediction (handler ?h ?st [Some ?m2]) = [Some ''FAKE'']
      \<and> map r_type (handler ?h ?st [Some ?m2]) = [''result'']"
    by (simp add: handle_message_def infer_using_server_def extract_aligned_face_def
        analyse_face_def run_models_def model_entry_def pred_label_def raw_confidence_def
        apply_confidence_threshold_def Let_def)
  show ?thesis
    unfolding first using second by simp
qed

end
